theory Spec2Isabelle
  imports Main "HOL-Library.Sublist" "HOL-Library.Word"
begin

section \<open>JavaScript values\<close>

text \<open>
  The plugin of \<^verbatim>\<open>index.js\<close> reads its parameters with JavaScript's truthiness tests
  (\<^verbatim>\<open>!params.name\<close>, \<^verbatim>\<open>params.handler || DEFAULT\<close>, \<^verbatim>\<open>typeof x === 'string'\<close>), so the
  parameters are modelled as JavaScript values. Numbers are the integers (sizes and
  seconds); an object is the list of its properties.
\<close>

datatype jsval =
    JUndefined
  | JNull
  | JBool bool
  | JNum int
  | JStr string
  | JArr "jsval list"
  | JObj "(string \<times> jsval) list"
  | JBuffer "8 word list"
  | JStream

type_synonym jsobj = "(string \<times> jsval) list"

text \<open>\<^verbatim>\<open>if (v)\<close>: undefined, null, false, 0 and the empty string are falsy.\<close>

fun truthy :: "jsval \<Rightarrow> bool" where
  "truthy JUndefined = False"
| "truthy JNull = False"
| "truthy (JBool b) = b"
| "truthy (JNum n) = (n \<noteq> 0)"
| "truthy (JStr s) = (s \<noteq> [])"
| "truthy (JArr xs) = True"
| "truthy (JObj kvs) = True"
| "truthy (JBuffer bs) = True"
| "truthy JStream = True"

text \<open>\<^verbatim>\<open>a || b\<close>.\<close>

definition js_or :: "jsval \<Rightarrow> jsval \<Rightarrow> jsval" where
  "js_or a b = (if truthy a then a else b)"

text \<open>
  \<^verbatim>\<open>v.k\<close> for a property \<^verbatim>\<open>k\<close> that no primitive carries (\<^verbatim>\<open>bucket\<close>, \<^verbatim>\<open>key\<close>,
  \<^verbatim>\<open>FunctionName\<close>, \<^verbatim>\<open>Version\<close>): the property of an object, undefined on any other
  value. On undefined and null JavaScript throws; \<open>nullish\<close> is tested first wherever the
  source can reach such a read.
\<close>

fun get_prop :: "jsval \<Rightarrow> string \<Rightarrow> jsval" where
  "get_prop (JObj kvs) k = (case map_of kvs k of None \<Rightarrow> JUndefined | Some v \<Rightarrow> v)"
| "get_prop v k = JUndefined"

fun nullish :: "jsval \<Rightarrow> bool" where
  "nullish JUndefined = True"
| "nullish JNull = True"
| "nullish v = False"

text \<open>
  \<^verbatim>\<open>a === b\<close> where \<open>a\<close> was received from the remote service: primitives compare by
  value, while an array, object or buffer received from the service is never identical to
  a local one.
\<close>

fun strict_eq :: "jsval \<Rightarrow> jsval \<Rightarrow> bool" where
  "strict_eq (JArr xs) b = False"
| "strict_eq (JObj kvs) b = False"
| "strict_eq (JBuffer bs) b = False"
| "strict_eq JStream b = False"
| "strict_eq a b = (a = b)"

text \<open>\<^verbatim>\<open>typeof v === 'string' ? [v] : v\<close>.\<close>

fun string_to_list :: "jsval \<Rightarrow> jsval" where
  "string_to_list (JStr s) = JArr [JStr s]"
| "string_to_list v = v"

text \<open>\<^verbatim>\<open>s.slice(-4)\<close>: the last four characters, the whole string when it is shorter.\<close>

definition slice_last4 :: "string \<Rightarrow> string" where
  "slice_last4 s = drop (length s - 4) s"


section \<open>Parameters, files and errors\<close>

text \<open>A Vinyl file: \<^verbatim>\<open>contents\<close> is null, a buffer or a stream.\<close>

record vinyl =
  path :: string
  contents :: jsval

definition isNull :: "vinyl \<Rightarrow> bool" where
  "isNull f = (contents f = JNull)"

definition isStream :: "vinyl \<Rightarrow> bool" where
  "isStream f = (contents f = JStream)"

text \<open>
  \<^verbatim>\<open>params\<close>: the documented properties, each undefined when not given, and the file
  that \<^verbatim>\<open>transform\<close> assigns. \<open>alias_name\<close> stands for \<^verbatim>\<open>params.alias\<close> and
  \<open>file_p\<close> for \<^verbatim>\<open>params.file\<close>.
\<close>

record params =
  name :: jsval
  role :: jsval
  s3 :: jsval
  handler :: jsval
  runtime :: jsval
  publish :: jsval
  alias_name :: jsval
  description :: jsval
  timeout :: jsval
  memory :: jsval
  subnets :: jsval
  securityGroups :: jsval
  file_p :: "vinyl option"

record options =
  profile :: jsval
  region :: jsval

text \<open>
  An error object, as the promise chain reads it: \<^verbatim>\<open>err.code\<close> and \<^verbatim>\<open>err.message\<close>, a
  string, or \<open>None\<close> when the error has no message (undefined or null).
\<close>

record js_error =
  code :: jsval
  message :: "string option"

definition TypeError :: "string \<Rightarrow> js_error" where
  "TypeError m = \<lparr>code = JUndefined, message = Some m\<rparr>"

text \<open>
  \<^verbatim>\<open>gulpError\<close>, lines 13 to 15: \<^verbatim>\<open>new gutil.PluginError('gulp-lambda-deploy', message)\<close>.
  The constructor belongs to the gulp-util library: it ends with
  \<^verbatim>\<open>if (!this.message) throw new Error('Missing error message')\<close>, so on an empty or
  missing message it throws (\<open>Inl\<close>, the message of the exception) and otherwise it returns
  the plugin error (\<open>Inr\<close>, its message).
\<close>

definition gulpError :: "string option \<Rightarrow> string + string" where
  "gulpError m =
    (case m of
       None \<Rightarrow> Inl ''Missing error message''
     | Some text \<Rightarrow> if text = [] then Inl ''Missing error message'' else Inr text)"

definition DEFAULT_handler :: jsval where
  "DEFAULT_handler = JStr ''index.handler''"

definition DEFAULT_runtime :: jsval where
  "DEFAULT_runtime = JStr ''nodejs4.3''"


section \<open>The plugin's entry: validation of the parameters\<close>

text \<open>
  \<^verbatim>\<open>module.exports = function(params, options)\<close>, lines 17 to 32: each \<^verbatim>\<open>throw\<close> is
  \<open>Inl\<close> of the message of the plugin error; otherwise the stream is built around the
  parameters. \<open>None\<close> is an argument that was not given.
\<close>

definition module_exports :: "params option \<Rightarrow> options option \<Rightarrow> string + params" where
  "module_exports params options =
    (case params of
       None \<Rightarrow> Inl ''No parameters provided''
     | Some p \<Rightarrow>
        if \<not> truthy (name p) then Inl ''No Lambda function name provided''
        else if \<not> truthy (role p) then Inl ''No Lambda role provided''
        else (case options of
           None \<Rightarrow> Inl ''No AWS options provided''
         | Some opts \<Rightarrow>
            if \<not> truthy (region opts) then Inl ''No AWS region provided''
            else if \<not> truthy (profile opts) then Inl ''No AWS profile provided''
            else if truthy (s3 p) \<and> \<not> truthy (get_prop (s3 p) ''bucket'')
              then Inl ''If uploading via S3, a bucket must be provided''
            else if truthy (s3 p) \<and> \<not> truthy (get_prop (s3 p) ''key'')
              then Inl ''If uploading via S3, a key must be provided''
            else if truthy (alias_name p) \<and> \<not> truthy (publish p)
              then Inl ''An alias was provided but 'publish' was 'false'.''
            else Inr p))"

text \<open>
  \<^verbatim>\<open>transform\<close>, lines 46 to 57: a null file is skipped, a stream file throws, a buffer
  file is stored in \<^verbatim>\<open>params.file\<close>. Nothing is pushed downstream here.
\<close>

definition transform :: "params \<Rightarrow> vinyl \<Rightarrow> string + params" where
  "transform p f =
    (if isNull f then Inr p
     else if isStream f then Inl ''Stream content is not supported''
     else Inr (p\<lparr>file_p := Some f\<rparr>))"

text \<open>The stream calls \<^verbatim>\<open>transform\<close> on each file written, in order; a throw ends it.\<close>

fun write_all :: "params \<Rightarrow> vinyl list \<Rightarrow> string + params" where
  "write_all p [] = Inr p"
| "write_all p (f # fs) =
    (case transform p f of Inl e \<Rightarrow> Inl e | Inr p' \<Rightarrow> write_all p' fs)"


section \<open>Remote services\<close>

text \<open>
  The calls the plugin makes on the AWS SDK clients, each with the parameter object it
  passes.
\<close>

datatype call =
    PutObject jsobj
  | ListFunctions jsobj
  | UpdateFunctionConfiguration jsobj
  | UpdateFunctionCode jsobj
  | CreateFunction jsobj
  | GetAlias jsobj
  | CreateAlias jsobj
  | UpdateAlias jsobj

text \<open>
  The two clients. An SDK method calls back with \<^verbatim>\<open>(err, data)\<close>: either an error and
  null data (\<open>Inl\<close>), or no error and the data object (\<open>Inr\<close>). The answer may depend on the
  request and on every call made before it in the run. The data of \<^verbatim>\<open>listFunctions\<close> is
  given by its \<^verbatim>\<open>Functions\<close> array, a list of function descriptions.
\<close>

record remote =
  s3_putObject :: "call list \<Rightarrow> jsobj \<Rightarrow> js_error + jsobj"
  lambda_listFunctions :: "call list \<Rightarrow> jsobj \<Rightarrow> js_error + jsobj list"
  lambda_updateFunctionConfiguration :: "call list \<Rightarrow> jsobj \<Rightarrow> js_error + jsobj"
  lambda_updateFunctionCode :: "call list \<Rightarrow> jsobj \<Rightarrow> js_error + jsobj"
  lambda_createFunction :: "call list \<Rightarrow> jsobj \<Rightarrow> js_error + jsobj"
  lambda_getAlias :: "call list \<Rightarrow> jsobj \<Rightarrow> js_error + jsobj"
  lambda_createAlias :: "call list \<Rightarrow> jsobj \<Rightarrow> js_error + jsobj"
  lambda_updateAlias :: "call list \<Rightarrow> jsobj \<Rightarrow> js_error + jsobj"

text \<open>
  A promise that has settled, with the calls made so far: \<open>Inl\<close> is a rejection.
  \<open>then_p\<close> is \<^verbatim>\<open>.then(f)\<close>: a rejection skips \<open>f\<close>.
\<close>

type_synonym 'a promise = "call list \<times> (js_error + 'a)"

definition then_p :: "'a promise \<Rightarrow> ('a \<Rightarrow> call list \<Rightarrow> 'b promise) \<Rightarrow> 'b promise" where
  "then_p m f = (case m of (tr, Inl err) \<Rightarrow> (tr, Inl err) | (tr, Inr v) \<Rightarrow> f v tr)"

text \<open>\<^verbatim>\<open>params.file.contents\<close>: a TypeError when no file is stored.\<close>

definition file_contents :: "params \<Rightarrow> js_error + jsval" where
  "file_contents p =
    (case file_p p of
       None \<Rightarrow> Inl (TypeError ''Cannot read property 'contents' of undefined'')
     | Some f \<Rightarrow> Inr (contents f))"

text \<open>\<^verbatim>\<open>obj.k = v\<close>: an existing property keeps its place, a new one is added last.\<close>

fun set_prop :: "jsobj \<Rightarrow> string \<Rightarrow> jsval \<Rightarrow> jsobj" where
  "set_prop [] k v = [(k, v)]"
| "set_prop ((k', v') # kvs) k v =
    (if k' = k then (k, v) # kvs else (k', v') # set_prop kvs k v)"


section \<open>The remote operations of index.js\<close>

text \<open>\<^verbatim>\<open>s3upload\<close>, lines 109 to 122. A throw in the executor rejects the promise.\<close>

definition s3upload_s3params :: "params \<Rightarrow> js_error + jsobj" where
  "s3upload_s3params p =
    (if nullish (s3 p) then Inl (TypeError ''Cannot read property 'bucket' of undefined'')
     else (case file_contents p of
        Inl err \<Rightarrow> Inl err
      | Inr body \<Rightarrow>
          Inr [(''Bucket'', get_prop (s3 p) ''bucket''),
               (''Key'', get_prop (s3 p) ''key''),
               (''Body'', body)]))"

definition s3upload :: "remote \<Rightarrow> params \<Rightarrow> call list \<Rightarrow> jsval promise" where
  "s3upload r p tr =
    (case s3upload_s3params p of
       Inl err \<Rightarrow> (tr, Inl err)
     | Inr s3params \<Rightarrow>
        (tr @ [PutObject s3params],
         case s3_putObject r tr s3params of Inl err \<Rightarrow> Inl err | Inr data \<Rightarrow> Inr (JObj data)))"

text \<open>
  \<^verbatim>\<open>hasLambdaFunction\<close>, lines 124 to 138: \<open>scan_functions\<close> is the loop over
  \<^verbatim>\<open>data.Functions\<close>.
\<close>

fun scan_functions :: "jsobj list \<Rightarrow> jsval \<Rightarrow> bool" where
  "scan_functions [] targetFunction = False"
| "scan_functions (f # fs) targetFunction =
    (if strict_eq (get_prop (JObj f) ''FunctionName'') targetFunction then True
     else scan_functions fs targetFunction)"

definition hasLambdaFunction :: "remote \<Rightarrow> jsval \<Rightarrow> call list \<Rightarrow> bool promise" where
  "hasLambdaFunction r targetFunction tr =
    (tr @ [ListFunctions []],
     case lambda_listFunctions r tr [] of
       Inl err \<Rightarrow> Inl err
     | Inr functions \<Rightarrow> Inr (scan_functions functions targetFunction))"

text \<open>\<^verbatim>\<open>updateFunctionCode\<close>, lines 140 to 166.\<close>

definition updateFunctionCode_lamparams :: "params \<Rightarrow> js_error + jsobj" where
  "updateFunctionCode_lamparams p =
    (let lamparams = [(''FunctionName'', name p), (''Publish'', publish p)]
     in if truthy (s3 p) then
          Inr (set_prop (set_prop lamparams ''S3Bucket'' (get_prop (s3 p) ''bucket''))
                 ''S3Key'' (get_prop (s3 p) ''key''))
        else (case file_contents p of
           Inl err \<Rightarrow> Inl err
         | Inr zipFile \<Rightarrow> Inr (set_prop lamparams ''ZipFile'' zipFile)))"

definition updateFunctionCode :: "remote \<Rightarrow> params \<Rightarrow> call list \<Rightarrow> jsobj promise" where
  "updateFunctionCode r p tr =
    (case updateFunctionCode_lamparams p of
       Inl err \<Rightarrow> (tr, Inl err)
     | Inr lamparams \<Rightarrow>
        (tr @ [UpdateFunctionCode lamparams], lambda_updateFunctionCode r tr lamparams))"

text \<open>
  The optional settings, written the same way in \<^verbatim>\<open>updateFunctionConfiguration\<close>
  (lines 176 to 188) and in \<^verbatim>\<open>createFunction\<close> (lines 216 to 228).
\<close>

definition VpcConfig :: "params \<Rightarrow> jsval" where
  "VpcConfig p =
    JObj [(''SubnetIds'', string_to_list (subnets p)),
          (''SecurityGroupIds'', string_to_list (securityGroups p))]"

definition optional_settings :: "params \<Rightarrow> jsobj \<Rightarrow> jsobj" where
  "optional_settings p lamparams =
    (let lamparams =
           (if truthy (memory p) then set_prop lamparams ''MemorySize'' (memory p)
            else lamparams);
         lamparams =
           (if truthy (description p) then set_prop lamparams ''Description'' (description p)
            else lamparams);
         lamparams =
           (if truthy (timeout p) then set_prop lamparams ''Timeout'' (timeout p)
            else lamparams)
     in if truthy (subnets p) \<and> truthy (securityGroups p)
        then set_prop lamparams ''VpcConfig'' (VpcConfig p)
        else lamparams)"

text \<open>\<^verbatim>\<open>updateFunctionConfiguration\<close>, lines 168 to 196.\<close>

definition updateFunctionConfiguration_lamparams :: "params \<Rightarrow> jsobj" where
  "updateFunctionConfiguration_lamparams p =
    optional_settings p
      [(''FunctionName'', name p),
       (''Role'', role p),
       (''Handler'', js_or (handler p) DEFAULT_handler),
       (''Runtime'', js_or (runtime p) DEFAULT_runtime)]"

definition updateFunctionConfiguration :: "remote \<Rightarrow> params \<Rightarrow> call list \<Rightarrow> jsobj promise" where
  "updateFunctionConfiguration r p tr =
    (let lamparams = updateFunctionConfiguration_lamparams p
     in (tr @ [UpdateFunctionConfiguration lamparams],
         lambda_updateFunctionConfiguration r tr lamparams))"

text \<open>\<^verbatim>\<open>createFunction\<close>, lines 198 to 236.\<close>

definition createFunction_code :: "params \<Rightarrow> js_error + jsobj" where
  "createFunction_code p =
    (if truthy (s3 p) then
       Inr (set_prop (set_prop [] ''S3Bucket'' (get_prop (s3 p) ''bucket''))
              ''S3Key'' (get_prop (s3 p) ''key''))
     else (case file_contents p of
        Inl err \<Rightarrow> Inl err
      | Inr zipFile \<Rightarrow> Inr (set_prop [] ''ZipFile'' zipFile)))"

definition createFunction_lamparams :: "params \<Rightarrow> js_error + jsobj" where
  "createFunction_lamparams p =
    (case createFunction_code p of
       Inl err \<Rightarrow> Inl err
     | Inr code' \<Rightarrow>
        Inr (optional_settings p
          [(''Code'', JObj code'),
           (''FunctionName'', name p),
           (''Handler'', js_or (handler p) DEFAULT_handler),
           (''Runtime'', js_or (runtime p) DEFAULT_runtime),
           (''Role'', role p),
           (''Publish'', publish p)]))"

definition createFunction :: "remote \<Rightarrow> params \<Rightarrow> call list \<Rightarrow> jsobj promise" where
  "createFunction r p tr =
    (case createFunction_lamparams p of
       Inl err \<Rightarrow> (tr, Inl err)
     | Inr lamparams \<Rightarrow>
        (tr @ [CreateFunction lamparams], lambda_createFunction r tr lamparams))"

text \<open>
  \<^verbatim>\<open>getAlias\<close>, lines 238 to 252: an error whose code is not
  \<^verbatim>\<open>ResourceNotFoundException\<close> rejects; otherwise the promise resolves with the data, which
  is null beside an error.
\<close>

definition getAlias_lamparams :: "params \<Rightarrow> jsobj" where
  "getAlias_lamparams p = [(''FunctionName'', name p), (''Name'', alias_name p)]"

definition getAlias :: "remote \<Rightarrow> params \<Rightarrow> call list \<Rightarrow> jsval promise" where
  "getAlias r p tr =
    (let lamparams = getAlias_lamparams p
     in (tr @ [GetAlias lamparams],
         case lambda_getAlias r tr lamparams of
           Inl err \<Rightarrow>
             if code err \<noteq> JStr ''ResourceNotFoundException'' then Inl err else Inr JNull
         | Inr data \<Rightarrow> Inr (JObj data)))"

text \<open>\<^verbatim>\<open>createAlias\<close> (lines 254 to 267) and \<^verbatim>\<open>updateAlias\<close> (lines 269 to 282).\<close>

definition alias_lamparams :: "jsval \<Rightarrow> params \<Rightarrow> jsobj" where
  "alias_lamparams version p =
    [(''FunctionName'', name p), (''FunctionVersion'', version), (''Name'', alias_name p)]"

definition createAlias :: "remote \<Rightarrow> jsval \<Rightarrow> params \<Rightarrow> call list \<Rightarrow> jsobj promise" where
  "createAlias r version p tr =
    (let lamparams = alias_lamparams version p
     in (tr @ [CreateAlias lamparams], lambda_createAlias r tr lamparams))"

definition updateAlias :: "remote \<Rightarrow> jsval \<Rightarrow> params \<Rightarrow> call list \<Rightarrow> jsobj promise" where
  "updateAlias r version p tr =
    (let lamparams = alias_lamparams version p
     in (tr @ [UpdateAlias lamparams], lambda_updateAlias r tr lamparams))"

text \<open>\<^verbatim>\<open>upsertAlias\<close>, lines 284 to 295.\<close>

definition upsertAlias :: "remote \<Rightarrow> jsval \<Rightarrow> params \<Rightarrow> call list \<Rightarrow> jsobj promise" where
  "upsertAlias r version p tr =
    then_p (getAlias r p tr)
      (\<lambda>alias. if \<not> truthy alias then createAlias r version p
               else updateAlias r version p)"


section \<open>The deployment: flush\<close>

text \<open>
  How a run ends: \<^verbatim>\<open>cb(gulpError(message))\<close>, or the files pushed downstream before
  \<^verbatim>\<open>cb()\<close>; \<open>Thrown\<close> is an exception out of \<^verbatim>\<open>module.exports\<close> or \<^verbatim>\<open>transform\<close>;
  \<open>Unhandled\<close> is an exception out of the \<^verbatim>\<open>.catch\<close> handler, the last of the chain: the
  promise chain ends rejected, nothing handles the rejection, and the callback of
  \<^verbatim>\<open>flush\<close> is never called.
\<close>

datatype outcome = Thrown string | Failed string | Unhandled string | Pushed "vinyl list"

text \<open>
  \<^verbatim>\<open>done\<close>, lines 63 to 68. With an error it is called from the \<^verbatim>\<open>.catch\<close> handler only,
  so a throw of \<^verbatim>\<open>gulpError\<close> leaves the handler before \<^verbatim>\<open>cb\<close> is reached.
\<close>

definition done_cb :: "params \<Rightarrow> js_error option \<Rightarrow> outcome" where
  "done_cb p err =
    (case err of
       Some e \<Rightarrow>
         (case gulpError (message e) of
            Inl thrown \<Rightarrow> Unhandled thrown
          | Inr text \<Rightarrow> Failed text)
     | None \<Rightarrow> Pushed (case file_p p of None \<Rightarrow> [] | Some f \<Rightarrow> [f]))"

text \<open>
  The promise chain of \<^verbatim>\<open>flush\<close>, one definition for each \<^verbatim>\<open>.then\<close>: lines 78 to 83,
  83 to 86, 86 to 95 and 95 to 99.
\<close>

definition staged :: "remote \<Rightarrow> params \<Rightarrow> jsval promise" where
  "staged r p =
    then_p ([], Inr JUndefined)
      (\<lambda>_. if truthy (s3 p) then s3upload r p else (\<lambda>tr. (tr, Inr JUndefined)))"

definition located :: "remote \<Rightarrow> params \<Rightarrow> bool promise" where
  "located r p = then_p (staged r p) (\<lambda>_. hasLambdaFunction r (name p))"

definition upserted :: "remote \<Rightarrow> params \<Rightarrow> jsobj promise" where
  "upserted r p =
    then_p (located r p)
      (\<lambda>hasFunction.
         if hasFunction then
           (\<lambda>tr. then_p (updateFunctionConfiguration r p tr) (\<lambda>_. updateFunctionCode r p))
         else createFunction r p)"

definition aliased :: "remote \<Rightarrow> params \<Rightarrow> jsval promise" where
  "aliased r p =
    then_p (upserted r p)
      (\<lambda>upsertedFunction.
         if truthy (alias_name p) then
           (\<lambda>tr. case upsertAlias r (get_prop (JObj upsertedFunction) ''Version'') p tr of
                   (tr', Inl err) \<Rightarrow> (tr', Inl err)
                 | (tr', Inr data) \<Rightarrow> (tr', Inr (JObj data)))
         else (\<lambda>tr. (tr, Inr JUndefined)))"

text \<open>
  \<^verbatim>\<open>flush\<close>, lines 59 to 104: the calls made, in order, and how the run ended.
\<close>

definition flush :: "remote \<Rightarrow> params \<Rightarrow> call list \<times> outcome" where
  "flush r p =
    (case file_p p of
       None \<Rightarrow> ([], Failed ''No code provided'')
     | Some f \<Rightarrow>
        if slice_last4 (path f) \<noteq> ''.zip'' then ([], Failed ''Given file is not a zip'')
        else (case aliased r p of
           (tr, Inr _) \<Rightarrow> (tr, done_cb p None)
         | (tr, Inl err) \<Rightarrow> (tr, done_cb p (Some err))))"

text \<open>
  The plugin as the README uses it, \<^verbatim>\<open>.pipe(lambda(params, options))\<close>: the stream is
  built, every file is written to it, then it is flushed.
\<close>

definition deploy ::
  "remote \<Rightarrow> params option \<Rightarrow> options option \<Rightarrow> vinyl list \<Rightarrow> call list \<times> outcome" where
  "deploy r params options files =
    (case module_exports params options of
       Inl e \<Rightarrow> ([], Thrown e)
     | Inr p \<Rightarrow>
        (case write_all p files of
           Inl e \<Rightarrow> ([], Thrown e)
         | Inr p' \<Rightarrow> flush r p'))"


section \<open>Observing a run\<close>

text \<open>
  The stage a call belongs to, by its place in the pipeline: staging, lookup, the two
  update calls (configuration, then code) or the creation, the alias lookup, the alias
  write.
\<close>

fun stage_rank :: "call \<Rightarrow> nat" where
  "stage_rank (PutObject q) = 0"
| "stage_rank (ListFunctions q) = 1"
| "stage_rank (UpdateFunctionConfiguration q) = 2"
| "stage_rank (UpdateFunctionCode q) = 3"
| "stage_rank (CreateFunction q) = 3"
| "stage_rank (GetAlias q) = 4"
| "stage_rank (CreateAlias q) = 5"
| "stage_rank (UpdateAlias q) = 5"

text \<open>
  The answer to call \<open>c\<close>, made after the calls \<open>pre\<close>, ends the run: an error, except
  the not-found answer of the alias lookup, which selects the creation of the alias.
\<close>

fun fatal :: "remote \<Rightarrow> call list \<Rightarrow> call \<Rightarrow> bool" where
  "fatal r pre (PutObject q) = isl (s3_putObject r pre q)"
| "fatal r pre (ListFunctions q) = isl (lambda_listFunctions r pre q)"
| "fatal r pre (UpdateFunctionConfiguration q) = isl (lambda_updateFunctionConfiguration r pre q)"
| "fatal r pre (UpdateFunctionCode q) = isl (lambda_updateFunctionCode r pre q)"
| "fatal r pre (CreateFunction q) = isl (lambda_createFunction r pre q)"
| "fatal r pre (GetAlias q) =
    (case lambda_getAlias r pre q of
       Inl err \<Rightarrow> code err \<noteq> JStr ''ResourceNotFoundException''
     | Inr data \<Rightarrow> False)"
| "fatal r pre (CreateAlias q) = isl (lambda_createAlias r pre q)"
| "fatal r pre (UpdateAlias q) = isl (lambda_updateAlias r pre q)"

text \<open>Each call of a trace with whether its answer was fatal.\<close>

fun answers :: "remote \<Rightarrow> call list \<Rightarrow> call list \<Rightarrow> (call \<times> bool) list" where
  "answers r pre [] = []"
| "answers r pre (c # cs) = (c, fatal r pre c) # answers r (pre @ [c]) cs"

text \<open>
  The calls a run on \<open>p\<close> can make: each with the parameter object the source builds for
  it, the staging call only with a staging target, the alias calls only with an alias.
\<close>

fun issued :: "params \<Rightarrow> call \<Rightarrow> bool" where
  "issued p (PutObject q) = (truthy (s3 p) \<and> s3upload_s3params p = Inr q)"
| "issued p (ListFunctions q) = (q = [])"
| "issued p (UpdateFunctionConfiguration q) = (q = updateFunctionConfiguration_lamparams p)"
| "issued p (UpdateFunctionCode q) = (updateFunctionCode_lamparams p = Inr q)"
| "issued p (CreateFunction q) = (createFunction_lamparams p = Inr q)"
| "issued p (GetAlias q) = (truthy (alias_name p) \<and> q = getAlias_lamparams p)"
| "issued p (CreateAlias q) =
    (truthy (alias_name p) \<and> q = alias_lamparams (get_prop (JObj q) ''FunctionVersion'') p)"
| "issued p (UpdateAlias q) =
    (truthy (alias_name p) \<and> q = alias_lamparams (get_prop (JObj q) ''FunctionVersion'') p)"

text \<open>
  The stages a complete run goes through: lookup and the code-carrying call always,
  staging and the two alias calls when configured.
\<close>

definition required :: "params \<Rightarrow> nat \<Rightarrow> bool" where
  "required p j =
    (if j = 0 then truthy (s3 p)
     else if j = 1 \<or> j = 3 then True
     else if j = 4 \<or> j = 5 then truthy (alias_name p)
     else False)"

text \<open>
  The stages that come before call \<open>c\<close>: the required ones, and the configuration update
  before a code update.
\<close>

fun needed :: "params \<Rightarrow> call \<Rightarrow> nat \<Rightarrow> bool" where
  "needed p (UpdateFunctionCode q) j = (j = 2 \<or> required p j)"
| "needed p c j = required p j"

text \<open>
  The invariant of the promise chain, with every call so far below stage \<open>k\<close>: the stages
  are in order, every call is one the source builds, no call but the last was fatal, the
  promise is rejected exactly when a call was fatal, a promise that resolved has gone
  through every required stage below \<open>k\<close>, and every call made has the stages that come
  before it in the trace.
\<close>

definition chain_inv :: "remote \<Rightarrow> params \<Rightarrow> nat \<Rightarrow> 'a promise \<Rightarrow> bool" where
  "chain_inv r p k m =
    (case m of (tr, res) \<Rightarrow>
       sorted_wrt (<) (map stage_rank tr) \<and>
       (\<forall>c\<in>set tr. stage_rank c < k \<and> issued p c) \<and>
       (\<forall>cb\<in>set (butlast (answers r [] tr)). \<not> snd cb) \<and>
       (isl res \<longleftrightarrow> (\<exists>c. (c, True) \<in> set (answers r [] tr))) \<and>
       (\<not> isl res \<longrightarrow> (\<forall>j<k. required p j \<longrightarrow> (\<exists>c\<in>set tr. stage_rank c = j))) \<and>
       (\<forall>c\<in>set tr. \<forall>j. j < stage_rank c \<longrightarrow> needed p c j \<longrightarrow> (\<exists>c'\<in>set tr. stage_rank c' = j)))"


section \<open>Example runs\<close>

text \<open>
  An archive, and three scenarios: function \<^verbatim>\<open>f\<close> exists and
  alias \<^verbatim>\<open>live\<close> does not; no function exists and the code is staged in a bucket; the
  listing of the functions fails. Three more remotes: the alias exists; the alias lookup
  is denied; it is denied by an error whose message is empty.
\<close>

definition example_file :: vinyl where
  "example_file = \<lparr>path = ''package.zip'', contents = JBuffer [80, 75]\<rparr>"

definition example_params :: params where
  "example_params =
    \<lparr>name = JStr ''f'', role = JStr ''r'', s3 = JUndefined, handler = JUndefined,
     runtime = JUndefined, publish = JBool True, alias_name = JStr ''live'',
     description = JUndefined, timeout = JUndefined, memory = JUndefined,
     subnets = JUndefined, securityGroups = JUndefined, file_p = Some example_file\<rparr>"

definition example_staged_params :: params where
  "example_staged_params =
    \<lparr>name = JStr ''f'', role = JStr ''r'',
     s3 = JObj [(''bucket'', JStr ''b''), (''key'', JStr ''k'')], handler = JUndefined,
     runtime = JUndefined, publish = JBool False, alias_name = JUndefined,
     description = JUndefined, timeout = JUndefined, memory = JNum 128,
     subnets = JStr ''subnet-1'', securityGroups = JArr [JStr ''sg-1''],
     file_p = Some example_file\<rparr>"

definition example_options :: options where
  "example_options = \<lparr>profile = JStr ''default'', region = JStr ''us-east-1''\<rparr>"

definition example_data :: "call list \<Rightarrow> jsobj \<Rightarrow> js_error + jsobj" where
  "example_data tr q = Inr [(''Version'', JStr ''3'')]"

definition example_remote :: remote where
  "example_remote =
    \<lparr>s3_putObject = example_data,
     lambda_listFunctions = (\<lambda>tr q. Inr [[(''FunctionName'', JStr ''f'')]]),
     lambda_updateFunctionConfiguration = example_data,
     lambda_updateFunctionCode = example_data,
     lambda_createFunction = example_data,
     lambda_getAlias =
       (\<lambda>tr q. Inl \<lparr>code = JStr ''ResourceNotFoundException'', message = Some ''no alias''\<rparr>),
     lambda_createAlias = example_data,
     lambda_updateAlias = example_data\<rparr>"

definition example_empty_remote :: remote where
  "example_empty_remote = example_remote\<lparr>lambda_listFunctions := (\<lambda>tr q. Inr [])\<rparr>"

definition example_failing_remote :: remote where
  "example_failing_remote =
    example_remote\<lparr>lambda_listFunctions :=
      (\<lambda>tr q. Inl \<lparr>code = JStr ''ServiceException'', message = Some ''down''\<rparr>)\<rparr>"


definition example_alias_remote :: remote where
  "example_alias_remote =
    example_remote\<lparr>lambda_getAlias := (\<lambda>tr q. Inr [(''Name'', JStr ''live'')])\<rparr>"

definition example_silent_remote :: remote where
  "example_silent_remote =
    example_remote\<lparr>lambda_getAlias :=
      (\<lambda>tr q. Inl \<lparr>code = JStr ''AccessDeniedException'', message = Some []\<rparr>)\<rparr>"

definition example_denied_remote :: remote where
  "example_denied_remote =
    example_remote\<lparr>lambda_getAlias :=
      (\<lambda>tr q. Inl \<lparr>code = JStr ''AccessDeniedException'', message = Some ''denied''\<rparr>)\<rparr>"


section \<open>The promise chain keeps its invariant\<close>

lemma answers_append: "answers r pre (xs @ ys) = answers r pre xs @ answers r (pre @ xs) ys"
  by (induction xs arbitrary: pre) simp_all

lemma map_fst_answers: "map fst (answers r pre tr) = tr"
  by (induction tr arbitrary: pre) simp_all

lemma inv_start: "chain_inv r p 0 ([], Inr v)"
  by (simp add: chain_inv_def)

lemma inv_call:
  assumes "chain_inv r p k (tr, Inr v)" and "k \<le> stage_rank c" and "stage_rank c < k'"
    and "issued p c" and "isl res = fatal r tr c"
    and "\<And>j. k \<le> j \<Longrightarrow> j < k' \<Longrightarrow> required p j \<Longrightarrow> j = stage_rank c"
    and "\<And>j. j < stage_rank c \<Longrightarrow> needed p c j \<Longrightarrow>
      (j < k \<and> required p j) \<or> (\<exists>c'\<in>set tr. stage_rank c' = j)"
  shows "chain_inv r p k' (tr @ [c], res)"
proof -
  from assms(1) have s: "sorted_wrt (<) (map stage_rank tr)"
    and b: "\<forall>c\<in>set tr. stage_rank c < k \<and> issued p c"
    and n: "\<forall>c. (c, True) \<notin> set (answers r [] tr)"
    and q: "\<forall>j<k. required p j \<longrightarrow> (\<exists>c\<in>set tr. stage_rank c = j)"
    and d: "\<forall>c\<in>set tr. \<forall>j. j < stage_rank c \<longrightarrow> needed p c j \<longrightarrow> (\<exists>c'\<in>set tr. stage_rank c' = j)"
    by (auto simp: chain_inv_def)
  have 1: "sorted_wrt (<) (map stage_rank (tr @ [c]))"
    using s b assms(2) by (fastforce simp: sorted_wrt_append)
  have 2: "\<forall>c'\<in>set (tr @ [c]). stage_rank c' < k' \<and> issued p c'"
    using b assms(2,3,4) by fastforce
  have 3: "\<forall>cb\<in>set (butlast (answers r [] (tr @ [c]))). \<not> snd cb"
    using n by (auto simp: answers_append)
  have 4: "isl res \<longleftrightarrow> (\<exists>c'. (c', True) \<in> set (answers r [] (tr @ [c])))"
    using n assms(5) by (auto simp: answers_append)
  have 5: "\<forall>j<k'. required p j \<longrightarrow> (\<exists>c'\<in>set (tr @ [c]). stage_rank c' = j)"
  proof (intro allI impI)
    fix j assume "j < k'" "required p j"
    show "\<exists>c'\<in>set (tr @ [c]). stage_rank c' = j"
    proof (cases "j < k")
      case True with q \<open>required p j\<close> show ?thesis by auto
    next
      case False
      with assms(6) \<open>j < k'\<close> \<open>required p j\<close> have "j = stage_rank c" by simp
      then show ?thesis by simp
    qed
  qed
  have 6: "\<forall>c'\<in>set (tr @ [c]). \<forall>j. j < stage_rank c' \<longrightarrow> needed p c' j \<longrightarrow>
      (\<exists>c''\<in>set (tr @ [c]). stage_rank c'' = j)"
  proof (intro ballI allI impI)
    fix c' j assume c': "c' \<in> set (tr @ [c])" and j: "j < stage_rank c'" "needed p c' j"
    show "\<exists>c''\<in>set (tr @ [c]). stage_rank c'' = j"
    proof (cases "c' \<in> set tr")
      case True
      with d j show ?thesis by auto
    next
      case False
      with c' have "c' = c" by simp
      with assms(7) [of j] j q show ?thesis by auto
    qed
  qed
  show ?thesis unfolding chain_inv_def using 1 2 3 4 5 6 by simp
qed

lemma inv_rejected:
  assumes "chain_inv r p k (tr, Inl e)" and "k \<le> k'"
  shows "chain_inv r p k' (tr, Inl e')"
  using assms by (fastforce simp: chain_inv_def)

lemma inv_skip:
  assumes "chain_inv r p k (tr, Inr v)" and "k \<le> k'"
    and "\<And>j. k \<le> j \<Longrightarrow> j < k' \<Longrightarrow> \<not> required p j"
  shows "chain_inv r p k' (tr, Inr v')"
proof -
  have "\<forall>j<k'. required p j \<longrightarrow> (\<exists>c\<in>set tr. stage_rank c = j)"
  proof (intro allI impI)
    fix j assume "j < k'" "required p j"
    with assms(3) have "j < k" by (meson not_le)
    with assms(1) \<open>required p j\<close> show "\<exists>c\<in>set tr. stage_rank c = j" by (auto simp: chain_inv_def)
  qed
  moreover have "\<forall>c\<in>set tr. stage_rank c < k' \<and> issued p c"
    using assms(1,2) by (fastforce simp: chain_inv_def)
  ultimately show ?thesis using assms(1) by (simp add: chain_inv_def)
qed

lemma inv_isl: "chain_inv r p k (tr, res) \<Longrightarrow> isl res' = isl res \<Longrightarrow> chain_inv r p k (tr, res')"
  by (simp add: chain_inv_def)

lemma truthy_not_nullish: "truthy v \<Longrightarrow> \<not> nullish v"
  by (cases v) simp_all

lemma file_contents_Some: "file_p p = Some f \<Longrightarrow> file_contents p = Inr (contents f)"
  by (simp add: file_contents_def)

lemma s3upload_s3params_Inr:
  assumes "file_p p = Some f" and "truthy (s3 p)"
  obtains q where "s3upload_s3params p = Inr q"
  using assms by (simp add: s3upload_s3params_def file_contents_Some truthy_not_nullish)

lemma updateFunctionCode_lamparams_Inr:
  assumes "file_p p = Some f"
  obtains q where "updateFunctionCode_lamparams p = Inr q"
  using assms
  by (cases "truthy (s3 p)")
    (simp_all add: updateFunctionCode_lamparams_def file_contents_Some Let_def)

lemma createFunction_lamparams_Inr:
  assumes "file_p p = Some f"
  obtains q where "createFunction_lamparams p = Inr q"
  using assms
  by (cases "truthy (s3 p)")
    (simp_all add: createFunction_lamparams_def createFunction_code_def file_contents_Some)

lemma then_p_Inl: "then_p (tr, Inl e) g = (tr, Inl e)"
  by (simp add: then_p_def)

lemma then_p_Inr: "then_p (tr, Inr v) g = g v tr"
  by (simp add: then_p_def)

lemma staged_eq:
  "staged r p = (if truthy (s3 p) then s3upload r p [] else ([], Inr JUndefined))"
  by (simp add: staged_def then_p_Inr)

lemma inv_staged:
  assumes "file_p p = Some f"
  shows "chain_inv r p 1 (staged r p)"
proof (cases "truthy (s3 p)")
  case True
  from s3upload_s3params_Inr [OF assms True] obtain q where q: "s3upload_s3params p = Inr q" .
  have "chain_inv r p 1 ([] @ [PutObject q],
      case s3_putObject r [] q of Inl err \<Rightarrow> Inl err | Inr data \<Rightarrow> Inr (JObj data))"
    by (rule inv_call [OF inv_start [of r p JUndefined]])
      (auto simp: True q required_def split: sum.splits)
  then show ?thesis by (simp add: staged_eq True s3upload_def q)
next
  case False
  have "chain_inv r p 1 ([], Inr JUndefined)"
    by (rule inv_skip [OF inv_start [of r p JUndefined]]) (auto simp: False required_def)
  then show ?thesis by (simp add: staged_eq False)
qed

lemma inv_located:
  assumes "file_p p = Some f"
  shows "chain_inv r p 2 (located r p)"
proof -
  obtain tr res where st: "staged r p = (tr, res)" by (cases "staged r p")
  have i: "chain_inv r p 1 (tr, res)" using inv_staged [OF assms, of r] st by simp
  show ?thesis
  proof (cases res)
    case (Inl e)
    then show ?thesis using inv_rejected [of r p 1 tr e 2 e] i
      by (simp add: located_def st then_p_Inl)
  next
    case (Inr v)
    have "chain_inv r p 2 (tr @ [ListFunctions []],
        case lambda_listFunctions r tr [] of Inl err \<Rightarrow> Inl err
        | Inr functions \<Rightarrow> Inr (scan_functions functions (name p)))"
      by (rule inv_call [OF i [unfolded Inr]]) (auto simp: required_def split: sum.splits)
    then show ?thesis by (simp add: located_def st Inr then_p_Inr hasLambdaFunction_def)
  qed
qed

lemma inv_upserted:
  assumes "file_p p = Some f"
  shows "chain_inv r p 4 (upserted r p)"
proof -
  obtain tr res where lo: "located r p = (tr, res)" by (cases "located r p")
  have i: "chain_inv r p 2 (tr, res)" using inv_located [OF assms, of r] lo by simp
  show ?thesis
  proof (cases res)
    case (Inl e)
    then show ?thesis using inv_rejected [of r p 2 tr e 4 e] i
      by (simp add: upserted_def lo then_p_Inl)
  next
    case (Inr hasFunction)
    note i2 = i [unfolded Inr]
    show ?thesis
    proof (cases hasFunction)
      case True
      define c where "c = UpdateFunctionConfiguration (updateFunctionConfiguration_lamparams p)"
      define res1 where
        "res1 = lambda_updateFunctionConfiguration r tr (updateFunctionConfiguration_lamparams p)"
      have u: "updateFunctionConfiguration r p tr = (tr @ [c], res1)"
        by (simp add: updateFunctionConfiguration_def c_def res1_def Let_def)
      have i3: "chain_inv r p 3 (tr @ [c], res1)"
        by (rule inv_call [OF i2]) (auto simp: c_def res1_def required_def)
      have "chain_inv r p 4 (then_p (tr @ [c], res1) (\<lambda>_. updateFunctionCode r p))"
      proof (cases res1)
        case (Inl e)
        then show ?thesis using inv_rejected [of r p 3 "tr @ [c]" e 4 e] i3
          by (simp add: then_p_Inl)
      next
        case (Inr d)
        from updateFunctionCode_lamparams_Inr [OF assms] obtain q
          where q: "updateFunctionCode_lamparams p = Inr q" .
        have "chain_inv r p 4 ((tr @ [c]) @ [UpdateFunctionCode q],
            lambda_updateFunctionCode r (tr @ [c]) q)"
          by (rule inv_call [OF i3 [unfolded Inr]]) (auto simp: q required_def c_def)
        then show ?thesis by (simp add: Inr then_p_Inr updateFunctionCode_def q)
      qed
      then show ?thesis by (simp add: upserted_def lo Inr True then_p_Inr u)
    next
      case False
      from createFunction_lamparams_Inr [OF assms] obtain q
        where q: "createFunction_lamparams p = Inr q" .
      have "chain_inv r p 4 (tr @ [CreateFunction q], lambda_createFunction r tr q)"
        by (rule inv_call [OF i2]) (auto simp: q required_def split: if_splits)
      then show ?thesis by (simp add: upserted_def lo Inr False then_p_Inr createFunction_def q)
    qed
  qed
qed

lemma alias_lamparams_version:
  "get_prop (JObj (alias_lamparams v p)) ''FunctionVersion'' = v"
  by (simp add: alias_lamparams_def)

lemma inv_upsertAlias:
  assumes i: "chain_inv r p 4 (tr, Inr u)" and a: "truthy (alias_name p)"
  shows "chain_inv r p 6 (upsertAlias r v p tr)"
proof -
  define c where "c = GetAlias (getAlias_lamparams p)"
  define res1 where
    "res1 = (case lambda_getAlias r tr (getAlias_lamparams p) of
        Inl err \<Rightarrow> if code err \<noteq> JStr ''ResourceNotFoundException'' then Inl err else Inr JNull
      | Inr data \<Rightarrow> Inr (JObj data))"
  have g: "getAlias r p tr = (tr @ [c], res1)"
    by (simp add: getAlias_def c_def res1_def Let_def)
  have i5: "chain_inv r p 5 (tr @ [c], res1)"
    by (rule inv_call [OF i]) (auto simp: c_def res1_def required_def a split: sum.splits)
  show ?thesis
  proof (cases res1)
    case (Inl e)
    then show ?thesis using inv_rejected [of r p 5 "tr @ [c]" e 6 e] i5
      by (simp add: upsertAlias_def g then_p_Inl)
  next
    case (Inr al)
    note i5' = i5 [unfolded Inr]
    show ?thesis
    proof (cases "truthy al")
      case True
      have "chain_inv r p 6 ((tr @ [c]) @ [UpdateAlias (alias_lamparams v p)],
          lambda_updateAlias r (tr @ [c]) (alias_lamparams v p))"
        by (rule inv_call [OF i5']) (auto simp: required_def a alias_lamparams_version
          simp del: get_prop.simps)
      then show ?thesis
        by (simp add: upsertAlias_def g Inr then_p_Inr True updateAlias_def Let_def)
    next
      case False
      have "chain_inv r p 6 ((tr @ [c]) @ [CreateAlias (alias_lamparams v p)],
          lambda_createAlias r (tr @ [c]) (alias_lamparams v p))"
        by (rule inv_call [OF i5']) (auto simp: required_def a alias_lamparams_version
          simp del: get_prop.simps)
      then show ?thesis
        by (simp add: upsertAlias_def g Inr then_p_Inr False createAlias_def Let_def)
    qed
  qed
qed

lemma inv_aliased:
  assumes "file_p p = Some f"
  shows "chain_inv r p 6 (aliased r p)"
proof -
  obtain tr res where up: "upserted r p = (tr, res)" by (cases "upserted r p")
  have i: "chain_inv r p 4 (tr, res)" using inv_upserted [OF assms, of r] up by simp
  show ?thesis
  proof (cases res)
    case (Inl e)
    then show ?thesis using inv_rejected [of r p 4 tr e 6 e] i
      by (simp add: aliased_def up then_p_Inl)
  next
    case (Inr u)
    note i4 = i [unfolded Inr]
    show ?thesis
    proof (cases "truthy (alias_name p)")
      case True
      obtain tr' res' where ua:
        "upsertAlias r (get_prop (JObj u) ''Version'') p tr = (tr', res')"
        by (cases "upsertAlias r (get_prop (JObj u) ''Version'') p tr")
      have "chain_inv r p 6 (tr', res')"
        using inv_upsertAlias [OF i4 True, of "get_prop (JObj u) ''Version''"] ua by simp
      then have "chain_inv r p 6 (case (tr', res') of
            (tr', Inl err) \<Rightarrow> (tr', Inl err)
          | (tr', Inr data) \<Rightarrow> (tr', Inr (JObj data)))"
        by (cases res') (auto elim: inv_isl)
      then show ?thesis
        by (simp add: aliased_def up Inr then_p_Inr True ua del: get_prop.simps)
    next
      case False
      have "chain_inv r p 6 (tr, Inr JUndefined)"
        by (rule inv_skip [OF i4]) (auto simp: required_def False)
      then show ?thesis by (simp add: aliased_def up Inr then_p_Inr False)
    qed
  qed
qed

lemma flush_valid:
  assumes "file_p p = Some f" and "slice_last4 (path f) = ''.zip''"
  shows "flush r p =
    (fst (aliased r p),
     case snd (aliased r p) of Inl err \<Rightarrow> done_cb p (Some err) | Inr v \<Rightarrow> Pushed [f])"
  using assms by (simp add: flush_def done_cb_def split: prod.splits sum.splits)

lemma flush_invalid:
  assumes "file_p p = None \<or> (\<exists>f. file_p p = Some f \<and> slice_last4 (path f) \<noteq> ''.zip'')"
  shows "fst (flush r p) = []" and "\<exists>m. snd (flush r p) = Failed m"
  using assms by (auto simp: flush_def)


section \<open>The example runs, evaluated\<close>

lemmas example_defs = example_file_def example_params_def example_staged_params_def
  example_options_def example_data_def example_remote_def example_empty_remote_def
  example_failing_remote_def example_alias_remote_def example_denied_remote_def
  example_silent_remote_def

lemmas run_defs = flush_def aliased_def upserted_def located_def staged_def then_p_def
  upsertAlias_def getAlias_def createAlias_def updateAlias_def createFunction_def
  updateFunctionConfiguration_def updateFunctionCode_def hasLambdaFunction_def s3upload_def
  s3upload_s3params_def updateFunctionCode_lamparams_def createFunction_lamparams_def
  createFunction_code_def done_cb_def gulpError_def file_contents_def slice_last4_def
  updateFunctionConfiguration_lamparams_def optional_settings_def VpcConfig_def
  getAlias_lamparams_def alias_lamparams_def js_or_def DEFAULT_handler_def DEFAULT_runtime_def

lemma example_update_run:
  "flush example_remote example_params =
    ([ListFunctions [],
      UpdateFunctionConfiguration
        [(''FunctionName'', JStr ''f''), (''Role'', JStr ''r''),
         (''Handler'', JStr ''index.handler''), (''Runtime'', JStr ''nodejs4.3'')],
      UpdateFunctionCode
        [(''FunctionName'', JStr ''f''), (''Publish'', JBool True),
         (''ZipFile'', JBuffer [80, 75])],
      GetAlias [(''FunctionName'', JStr ''f''), (''Name'', JStr ''live'')],
      CreateAlias
        [(''FunctionName'', JStr ''f''), (''FunctionVersion'', JStr ''3''),
         (''Name'', JStr ''live'')]],
     Pushed [example_file])"
  by (simp add: run_defs example_defs Let_def)

lemma example_create_run:
  "flush example_empty_remote example_staged_params =
    ([PutObject [(''Bucket'', JStr ''b''), (''Key'', JStr ''k''), (''Body'', JBuffer [80, 75])],
      ListFunctions [],
      CreateFunction
        [(''Code'', JObj [(''S3Bucket'', JStr ''b''), (''S3Key'', JStr ''k'')]),
         (''FunctionName'', JStr ''f''), (''Handler'', JStr ''index.handler''),
         (''Runtime'', JStr ''nodejs4.3''), (''Role'', JStr ''r''),
         (''Publish'', JBool False), (''MemorySize'', JNum 128),
         (''VpcConfig'', JObj [(''SubnetIds'', JArr [JStr ''subnet-1'']),
            (''SecurityGroupIds'', JArr [JStr ''sg-1''])])]],
     Pushed [example_file])"
  by (simp add: run_defs example_defs Let_def)

lemma example_failing_run:
  "flush example_failing_remote example_staged_params =
    ([PutObject [(''Bucket'', JStr ''b''), (''Key'', JStr ''k''), (''Body'', JBuffer [80, 75])],
      ListFunctions []],
     Failed ''down'')"
  by (simp add: run_defs example_defs Let_def)

lemma example_staged_update_run:
  "flush example_remote example_staged_params =
    ([PutObject [(''Bucket'', JStr ''b''), (''Key'', JStr ''k''), (''Body'', JBuffer [80, 75])],
      ListFunctions [],
      UpdateFunctionConfiguration
        [(''FunctionName'', JStr ''f''), (''Role'', JStr ''r''),
         (''Handler'', JStr ''index.handler''), (''Runtime'', JStr ''nodejs4.3''),
         (''MemorySize'', JNum 128),
         (''VpcConfig'', JObj [(''SubnetIds'', JArr [JStr ''subnet-1'']),
            (''SecurityGroupIds'', JArr [JStr ''sg-1''])])],
      UpdateFunctionCode
        [(''FunctionName'', JStr ''f''), (''Publish'', JBool False),
         (''S3Bucket'', JStr ''b''), (''S3Key'', JStr ''k'')]],
     Pushed [example_file])"
  by (simp add: run_defs example_defs Let_def)

lemma example_alias_run:
  "flush example_alias_remote example_params =
    ([ListFunctions [],
      UpdateFunctionConfiguration
        [(''FunctionName'', JStr ''f''), (''Role'', JStr ''r''),
         (''Handler'', JStr ''index.handler''), (''Runtime'', JStr ''nodejs4.3'')],
      UpdateFunctionCode
        [(''FunctionName'', JStr ''f''), (''Publish'', JBool True),
         (''ZipFile'', JBuffer [80, 75])],
      GetAlias [(''FunctionName'', JStr ''f''), (''Name'', JStr ''live'')],
      UpdateAlias
        [(''FunctionName'', JStr ''f''), (''FunctionVersion'', JStr ''3''),
         (''Name'', JStr ''live'')]],
     Pushed [example_file])"
  by (simp add: run_defs example_defs Let_def)

lemma example_denied_run:
  "flush example_denied_remote example_params =
    ([ListFunctions [],
      UpdateFunctionConfiguration
        [(''FunctionName'', JStr ''f''), (''Role'', JStr ''r''),
         (''Handler'', JStr ''index.handler''), (''Runtime'', JStr ''nodejs4.3'')],
      UpdateFunctionCode
        [(''FunctionName'', JStr ''f''), (''Publish'', JBool True),
         (''ZipFile'', JBuffer [80, 75])],
      GetAlias [(''FunctionName'', JStr ''f''), (''Name'', JStr ''live'')]],
     Failed ''denied'')"
  by (simp add: run_defs example_defs Let_def)

lemma example_one_list_run:
  "flush example_empty_remote (example_staged_params\<lparr>securityGroups := JUndefined\<rparr>) =
    ([PutObject [(''Bucket'', JStr ''b''), (''Key'', JStr ''k''), (''Body'', JBuffer [80, 75])],
      ListFunctions [],
      CreateFunction
        [(''Code'', JObj [(''S3Bucket'', JStr ''b''), (''S3Key'', JStr ''k'')]),
         (''FunctionName'', JStr ''f''), (''Handler'', JStr ''index.handler''),
         (''Runtime'', JStr ''nodejs4.3''), (''Role'', JStr ''r''),
         (''Publish'', JBool False), (''MemorySize'', JNum 128)]],
     Pushed [example_file])"
  by (simp add: run_defs example_defs Let_def)

lemma example_upserted:
  assumes "r = example_remote \<or> r = example_alias_remote \<or> r = example_denied_remote \<or>
    r = example_silent_remote"
  shows "upserted r example_params =
    ([ListFunctions [],
      UpdateFunctionConfiguration
        [(''FunctionName'', JStr ''f''), (''Role'', JStr ''r''),
         (''Handler'', JStr ''index.handler''), (''Runtime'', JStr ''nodejs4.3'')],
      UpdateFunctionCode
        [(''FunctionName'', JStr ''f''), (''Publish'', JBool True),
         (''ZipFile'', JBuffer [80, 75])]],
     Inr [(''Version'', JStr ''3'')])"
  using assms by (auto simp: run_defs example_defs Let_def)

lemma example_valid:
  "file_p example_params = Some example_file"
  "file_p example_staged_params = Some example_file"
  "slice_last4 (path example_file) = ''.zip''"
  by (simp_all add: example_defs slice_last4_def)


section \<open>The order of the stages\<close>

lemma flush_cases:
  obtains (invalid) m where "flush r p = ([], Failed m)"
      and "\<not> (\<exists>f. file_p p = Some f \<and> slice_last4 (path f) = ''.zip'')"
  | (valid) f and res :: "js_error + jsval" where "file_p p = Some f"
      and "chain_inv r p 6 (fst (flush r p), res)"
      and "snd (flush r p) =
        (case res of Inl err \<Rightarrow> done_cb p (Some err) | Inr v \<Rightarrow> Pushed [f])"
proof (cases "\<exists>f. file_p p = Some f \<and> slice_last4 (path f) = ''.zip''")
  case True
  then obtain f where f: "file_p p = Some f" "slice_last4 (path f) = ''.zip''" by blast
  have "chain_inv r p 6 (fst (aliased r p), snd (aliased r p))"
    using inv_aliased [OF f(1), of r] by simp
  then show ?thesis using valid [of f "snd (aliased r p)"] f by (simp add: flush_valid)
next
  case False
  then have "file_p p = None \<or> (\<exists>f. file_p p = Some f \<and> slice_last4 (path f) \<noteq> ''.zip'')"
    by (cases "file_p p") auto
  from flush_invalid [OF this, of r] obtain m where "flush r p = ([], Failed m)"
    by (metis prod.collapse)
  then show ?thesis using False by (rule invalid)
qed

lemma issued_stage:
  assumes "issued p c"
  shows "(stage_rank c = 0 \<longrightarrow> truthy (s3 p)) \<and> (4 \<le> stage_rank c \<longrightarrow> truthy (alias_name p))"
  using assms by (cases c) simp_all

lemma fatal_is_last:
  assumes "\<forall>cb\<in>set (butlast ans). \<not> snd cb" and "(c, True) \<in> set ans"
  shows "ans \<noteq> [] \<and> last ans = (c, True)"
proof -
  from assms(2) have ne: "ans \<noteq> []" by auto
  then have "set ans = set (butlast ans) \<union> {last ans}"
    by (metis append_butlast_last_id list.simps(15) set_append Un_insert_right sup_bot.right_neutral list.set(1))
  with assms show ?thesis using ne by auto
qed

lemma sorted_last_max:
  fixes g :: "'a \<Rightarrow> nat"
  assumes "sorted_wrt (<) (map g xs)" and "x \<in> set xs"
  shows "g x \<le> g (last xs)"
proof -
  from assms(2) have ne: "xs \<noteq> []" by auto
  then have xs: "xs = butlast xs @ [last xs]" by simp
  from assms(1) have "\<forall>y\<in>set (butlast xs). g y < g (last xs)"
    by (subst (asm) xs) (simp add: sorted_wrt_append)
  moreover from assms(2) have "x \<in> set (butlast xs) \<or> x = last xs"
    by (subst (asm) xs) auto
  ultimately show ?thesis by auto
qed

lemma last_answers:
  assumes "tr \<noteq> []"
  shows "fst (last (answers r pre tr)) = last tr"
proof -
  have "answers r pre tr \<noteq> []" using assms by (cases tr) simp_all
  then have "fst (last (answers r pre tr)) = last (map fst (answers r pre tr))"
    by (simp add: last_map)
  then show ?thesis by (simp add: map_fst_answers)
qed

lemma done_cb_error:
  "(\<exists>m. done_cb p (Some e) = Failed m) \<or> (\<exists>m. done_cb p (Some e) = Unhandled m)"
  by (simp add: done_cb_def gulpError_def split: option.splits)

lemma answers_Nil: "answers r pre tr = [] \<longleftrightarrow> tr = []"
  by (cases tr) simp_all

text \<open>
  Claim C1. Every run of \<^verbatim>\<open>flush\<close> makes its calls in the fixed order staging upload,
  function listing, configuration update and code update (or creation), alias lookup,
  alias write, each kind at most once (the stage ranks increase strictly along the
  trace). Every call is the one the source builds for its stage; the staging upload is
  made only with a staging target and the alias calls only with an alias name. A call is
  made only after the stages that come before it: the trace holds, before it, the
  staging upload when a target is configured, the listing, the configuration update
  before a code update, the code-carrying call before the alias lookup, and the lookup
  before the alias write; and none of these received a fatal answer, since no call but
  the last one of a run did. A run on a valid artifact makes at least one call, and it
  pushes its file exactly when no call received a fatal answer, in which case it went
  through every required stage. So a run either completes every stage, or stops at the
  first fatal answer: nothing follows it, neither a later stage nor a rollback, and the
  run ends with the plugin error passed to the callback or, for an error without message,
  with the exception of its constructor. In particular, when the function listing fails,
  the trace holds nothing beyond the staging upload and the listing.
\<close>

theorem flush_stage_order:
  "sorted_wrt (<) (map stage_rank (fst (flush r p))) \<and>
   (\<forall>c\<in>set (fst (flush r p)).
      issued p c \<and>
      (stage_rank c = 0 \<longrightarrow> truthy (s3 p)) \<and> (4 \<le> stage_rank c \<longrightarrow> truthy (alias_name p)) \<and>
      (\<forall>j. j < stage_rank c \<longrightarrow> needed p c j \<longrightarrow>
         (\<exists>c'\<in>set (fst (flush r p)). stage_rank c' = j))) \<and>
   (\<forall>cb\<in>set (butlast (answers r [] (fst (flush r p)))). \<not> snd cb) \<and>
   ((\<exists>f. file_p p = Some f \<and> slice_last4 (path f) = ''.zip'') \<longrightarrow> fst (flush r p) \<noteq> []) \<and>
   ((\<exists>fs. snd (flush r p) = Pushed fs) \<longleftrightarrow>
      (fst (flush r p) \<noteq> [] \<and> (\<forall>c. (c, True) \<notin> set (answers r [] (fst (flush r p)))))) \<and>
   ((\<exists>c. (c, True) \<in> set (answers r [] (fst (flush r p)))) \<longrightarrow>
      (\<exists>m. snd (flush r p) = Failed m \<or> snd (flush r p) = Unhandled m)) \<and>
   ((\<exists>fs. snd (flush r p) = Pushed fs) \<longrightarrow>
      (\<forall>j<6. required p j \<longrightarrow> (\<exists>c\<in>set (fst (flush r p)). stage_rank c = j))) \<and>
   ((\<exists>q. (ListFunctions q, True) \<in> set (answers r [] (fst (flush r p)))) \<longrightarrow>
      (\<forall>c\<in>set (fst (flush r p)). stage_rank c \<le> 1))"
proof (cases rule: flush_cases [of r p])
  case (invalid m)
  then show ?thesis by simp
next
  case (valid f res)
  let ?tr = "fst (flush r p)"
  from valid(2) have s: "sorted_wrt (<) (map stage_rank ?tr)"
    and i: "\<forall>c\<in>set ?tr. issued p c"
    and b: "\<forall>cb\<in>set (butlast (answers r [] ?tr)). \<not> snd cb"
    and e: "isl res \<longleftrightarrow> (\<exists>c. (c, True) \<in> set (answers r [] ?tr))"
    and q: "\<not> isl res \<longrightarrow> (\<forall>j<6. required p j \<longrightarrow> (\<exists>c\<in>set ?tr. stage_rank c = j))"
    and d: "\<forall>c\<in>set ?tr. \<forall>j. j < stage_rank c \<longrightarrow> needed p c j \<longrightarrow>
      (\<exists>c'\<in>set ?tr. stage_rank c' = j)"
    by (simp_all add: chain_inv_def)
  have 2: "\<forall>c\<in>set ?tr.
      issued p c \<and>
      (stage_rank c = 0 \<longrightarrow> truthy (s3 p)) \<and> (4 \<le> stage_rank c \<longrightarrow> truthy (alias_name p)) \<and>
      (\<forall>j. j < stage_rank c \<longrightarrow> needed p c j \<longrightarrow> (\<exists>c'\<in>set ?tr. stage_rank c' = j))"
    using i d issued_stage by blast
  have ne: "?tr \<noteq> []"
  proof (cases "isl res")
    case True
    with e obtain c where "(c, True) \<in> set (answers r [] ?tr)" by blast
    then have "answers r [] ?tr \<noteq> []" by auto
    then show ?thesis by (simp add: answers_Nil)
  next
    case False
    with q have "required p 1 \<longrightarrow> (\<exists>c\<in>set ?tr. stage_rank c = 1)" by simp
    then show ?thesis by (auto simp: required_def)
  qed
  have 3: "(\<exists>fs. snd (flush r p) = Pushed fs) \<longleftrightarrow>
      (?tr \<noteq> [] \<and> (\<forall>c. (c, True) \<notin> set (answers r [] ?tr)))"
  proof (cases res)
    case (Inl err)
    with valid(3) done_cb_error [of p err] have "\<not> (\<exists>fs. snd (flush r p) = Pushed fs)" by auto
    moreover from Inl e have "\<exists>c. (c, True) \<in> set (answers r [] ?tr)" by simp
    ultimately show ?thesis by blast
  next
    case (Inr v)
    with valid(3) have "snd (flush r p) = Pushed [f]" by simp
    moreover from Inr e have "\<forall>c. (c, True) \<notin> set (answers r [] ?tr)" by simp
    ultimately show ?thesis using ne by simp
  qed
  have 4: "(\<exists>c. (c, True) \<in> set (answers r [] ?tr)) \<longrightarrow>
      (\<exists>m. snd (flush r p) = Failed m \<or> snd (flush r p) = Unhandled m)"
  proof
    assume "\<exists>c. (c, True) \<in> set (answers r [] ?tr)"
    with e obtain err where "res = Inl err" by (cases res) auto
    with valid(3) done_cb_error [of p err] show
      "\<exists>m. snd (flush r p) = Failed m \<or> snd (flush r p) = Unhandled m" by auto
  qed
  have 5: "(\<exists>fs. snd (flush r p) = Pushed fs) \<longrightarrow>
      (\<forall>j<6. required p j \<longrightarrow> (\<exists>c\<in>set ?tr. stage_rank c = j))"
  proof
    assume "\<exists>fs. snd (flush r p) = Pushed fs"
    with 3 e have "\<not> isl res" by blast
    with q show "\<forall>j<6. required p j \<longrightarrow> (\<exists>c\<in>set ?tr. stage_rank c = j)" by simp
  qed
  have 6: "(\<exists>q. (ListFunctions q, True) \<in> set (answers r [] ?tr)) \<longrightarrow>
      (\<forall>c\<in>set ?tr. stage_rank c \<le> 1)"
  proof (intro impI ballI)
    fix c assume "\<exists>q. (ListFunctions q, True) \<in> set (answers r [] ?tr)" and c: "c \<in> set ?tr"
    then obtain q where "(ListFunctions q, True) \<in> set (answers r [] ?tr)" by blast
    from fatal_is_last [OF b this]
    have l: "last (answers r [] ?tr) = (ListFunctions q, True)" by simp
    from c have "?tr \<noteq> []" by auto
    from last_answers [OF this, of r "[]"] l have "last ?tr = ListFunctions q" by simp
    with sorted_last_max [OF s c] show "stage_rank c \<le> 1" by simp
  qed
  from s 2 b ne 3 4 5 6 show ?thesis by blast
qed

theorem flush_stage_order_witness:
  "fst (flush example_remote example_params) =
     [ListFunctions [],
      UpdateFunctionConfiguration
        [(''FunctionName'', JStr ''f''), (''Role'', JStr ''r''),
         (''Handler'', JStr ''index.handler''), (''Runtime'', JStr ''nodejs4.3'')],
      UpdateFunctionCode
        [(''FunctionName'', JStr ''f''), (''Publish'', JBool True),
         (''ZipFile'', JBuffer [80, 75])],
      GetAlias [(''FunctionName'', JStr ''f''), (''Name'', JStr ''live'')],
      CreateAlias
        [(''FunctionName'', JStr ''f''), (''FunctionVersion'', JStr ''3''),
         (''Name'', JStr ''live'')]] \<and>
   snd (flush example_remote example_params) = Pushed [example_file] \<and>
   truthy (alias_name example_params) \<and>
   file_p example_params = Some example_file \<and>
   slice_last4 (path example_file) = ''.zip'' \<and>
   needed example_params
     (UpdateFunctionCode
        [(''FunctionName'', JStr ''f''), (''Publish'', JBool True),
         (''ZipFile'', JBuffer [80, 75])]) 2 \<and>
   answers example_failing_remote [] (fst (flush example_failing_remote example_staged_params)) =
     [(PutObject [(''Bucket'', JStr ''b''), (''Key'', JStr ''k''), (''Body'', JBuffer [80, 75])],
       False),
      (ListFunctions [], True)] \<and>
   snd (flush example_failing_remote example_staged_params) = Failed ''down'' \<and>
   truthy (s3 example_staged_params) \<and>
   needed example_staged_params (ListFunctions []) 0"
proof -
  have 1: "truthy (alias_name example_params)" "truthy (s3 example_staged_params)"
    by (simp_all add: example_params_def example_staged_params_def)
  have 2: "needed example_params
     (UpdateFunctionCode
        [(''FunctionName'', JStr ''f''), (''Publish'', JBool True),
         (''ZipFile'', JBuffer [80, 75])]) 2"
    "needed example_staged_params (ListFunctions []) 0"
    by (simp_all add: required_def example_staged_params_def)
  have 3: "answers example_failing_remote []
      [PutObject [(''Bucket'', JStr ''b''), (''Key'', JStr ''k''), (''Body'', JBuffer [80, 75])],
       ListFunctions []] =
     [(PutObject [(''Bucket'', JStr ''b''), (''Key'', JStr ''k''), (''Body'', JBuffer [80, 75])],
       False),
      (ListFunctions [], True)]"
    by (simp add: example_defs)
  from flush_stage_order [of example_remote example_params]
    flush_stage_order [of example_failing_remote example_staged_params]
  show ?thesis
    by (intro conjI)
      (simp_all only: 1 2 3 example_valid example_update_run example_failing_run
        fst_conv snd_conv simp_thms)
qed


section \<open>Validation of the artifact and of the parameters\<close>

lemma slice_last4_zip: "slice_last4 s = ''.zip'' \<longleftrightarrow> suffix ''.zip'' s"
proof
  assume "slice_last4 s = ''.zip''"
  then have "s = take (length s - 4) s @ ''.zip''"
    unfolding slice_last4_def by (metis append_take_drop_id)
  then show "suffix ''.zip'' s" unfolding suffix_def by blast
next
  assume "suffix ''.zip'' s"
  then obtain pre where "s = pre @ ''.zip''" unfolding suffix_def by blast
  then show "slice_last4 s = ''.zip''" unfolding slice_last4_def by simp
qed

lemma write_all_null:
  assumes "\<forall>f\<in>set files. isNull f"
  shows "write_all p files = Inr p"
  using assms by (induction files) (simp_all add: transform_def)

text \<open>
  Claim C7. When no file is stored at flush time (none was written, or only null
  files), or when the path of the stored file does not end in \<^verbatim>\<open>.zip\<close>, the run ends
  with the validation error and has made no remote call: the trace is empty.
\<close>

theorem flush_rejects_artifact:
  "(file_p p = None \<longrightarrow> flush r p = ([], Failed ''No code provided'')) \<and>
   (\<forall>f. file_p p = Some f \<and> \<not> suffix ''.zip'' (path f) \<longrightarrow>
      flush r p = ([], Failed ''Given file is not a zip'')) \<and>
   (file_p p = None \<and> (\<forall>f\<in>set files. isNull f) \<longrightarrow>
      (\<exists>p'. write_all p files = Inr p' \<and> flush r p' = ([], Failed ''No code provided'')))"
  by (auto simp: flush_def slice_last4_zip write_all_null)

theorem flush_rejects_artifact_witness:
  "file_p (example_params\<lparr>file_p := None\<rparr>) = None \<and>
   isNull \<lparr>path = ''empty.zip'', contents = JNull\<rparr> \<and>
   write_all (example_params\<lparr>file_p := None\<rparr>) [\<lparr>path = ''empty.zip'', contents = JNull\<rparr>] =
     Inr (example_params\<lparr>file_p := None\<rparr>) \<and>
   flush example_remote (example_params\<lparr>file_p := None\<rparr>) = ([], Failed ''No code provided'') \<and>
   file_p (example_params\<lparr>file_p := Some \<lparr>path = ''package.tar'', contents = JBuffer [80, 75]\<rparr>\<rparr>) =
     Some \<lparr>path = ''package.tar'', contents = JBuffer [80, 75]\<rparr> \<and>
   \<not> suffix ''.zip'' ''package.tar'' \<and>
   flush example_remote
     (example_params\<lparr>file_p := Some \<lparr>path = ''package.tar'', contents = JBuffer [80, 75]\<rparr>\<rparr>) =
     ([], Failed ''Given file is not a zip'')"
  using flush_rejects_artifact [of "example_params\<lparr>file_p := None\<rparr>" example_remote
      "[\<lparr>path = ''empty.zip'', contents = JNull\<rparr>]"]
    flush_rejects_artifact [of
      "example_params\<lparr>file_p := Some \<lparr>path = ''package.tar'', contents = JBuffer [80, 75]\<rparr>\<rparr>"
      example_remote "[]"]
  by (simp add: isNull_def transform_def suffix_def)

text \<open>
  Claim C6. Parameters with an alias name but no true publish flag, without a function
  name, without a role, or with a staging block that lacks its bucket or its key, are
  rejected by \<^verbatim>\<open>module.exports\<close>: it throws, no stream is built, and the run has made
  no remote call. Set and missing are read as the source reads them: a value is set when
  it is truthy, so the empty string counts as missing.
\<close>

theorem module_exports_rejects:
  assumes "(truthy (alias_name p) \<and> \<not> truthy (publish p)) \<or> \<not> truthy (name p) \<or>
    \<not> truthy (role p) \<or>
    (truthy (s3 p) \<and>
      (\<not> truthy (get_prop (s3 p) ''bucket'') \<or> \<not> truthy (get_prop (s3 p) ''key'')))"
  shows "(\<exists>m. module_exports (Some p) opts = Inl m) \<and>
    (\<exists>m. deploy r (Some p) opts files = ([], Thrown m))"
proof -
  have "\<exists>m. module_exports (Some p) opts = Inl m"
    using assms by (auto simp: module_exports_def split: option.splits simp del: get_prop.simps)
  then show ?thesis by (auto simp: deploy_def)
qed

theorem module_exports_rejects_witness:
  "truthy (alias_name (example_params\<lparr>publish := JBool False\<rparr>)) \<and>
   \<not> truthy (publish (example_params\<lparr>publish := JBool False\<rparr>)) \<and>
   deploy example_remote (Some (example_params\<lparr>publish := JBool False\<rparr>)) (Some example_options)
     [example_file] = ([], Thrown ''An alias was provided but 'publish' was 'false'.'') \<and>
   \<not> truthy (name (example_params\<lparr>name := JUndefined\<rparr>)) \<and>
   deploy example_remote (Some (example_params\<lparr>name := JUndefined\<rparr>)) (Some example_options)
     [example_file] = ([], Thrown ''No Lambda function name provided'') \<and>
   \<not> truthy (role (example_params\<lparr>role := JUndefined\<rparr>)) \<and>
   deploy example_remote (Some (example_params\<lparr>role := JUndefined\<rparr>)) (Some example_options)
     [example_file] = ([], Thrown ''No Lambda role provided'') \<and>
   truthy (s3 (example_params\<lparr>s3 := JObj [(''bucket'', JStr ''b'')]\<rparr>)) \<and>
   \<not> truthy (get_prop (s3 (example_params\<lparr>s3 := JObj [(''bucket'', JStr ''b'')]\<rparr>)) ''key'') \<and>
   deploy example_remote (Some (example_params\<lparr>s3 := JObj [(''bucket'', JStr ''b'')]\<rparr>))
     (Some example_options) [example_file] =
     ([], Thrown ''If uploading via S3, a key must be provided'')"
  using module_exports_rejects [of "example_params\<lparr>publish := JBool False\<rparr>"
      "Some example_options" example_remote "[example_file]"]
    module_exports_rejects [of "example_params\<lparr>name := JUndefined\<rparr>"
      "Some example_options" example_remote "[example_file]"]
    module_exports_rejects [of "example_params\<lparr>role := JUndefined\<rparr>"
      "Some example_options" example_remote "[example_file]"]
    module_exports_rejects [of "example_params\<lparr>s3 := JObj [(''bucket'', JStr ''b'')]\<rparr>"
      "Some example_options" example_remote "[example_file]"]
  by (simp add: deploy_def module_exports_def example_defs)

section \<open>The files written to the stream\<close>

lemma write_all_stores:
  assumes "write_all p files = Inr p'"
  shows "p' = (case filter (\<lambda>f. \<not> isNull f) files of [] \<Rightarrow> p
     | f # fs \<Rightarrow> p\<lparr>file_p := Some (last (f # fs))\<rparr>)"
  using assms
proof (induction files arbitrary: p)
  case Nil
  then show ?case by simp
next
  case (Cons f files)
  show ?case
  proof (cases "isNull f")
    case True
    with Cons show ?thesis by (simp add: transform_def)
  next
    case False
    with Cons.prems have ns: "\<not> isStream f" and w: "write_all (p\<lparr>file_p := Some f\<rparr>) files = Inr p'"
      by (auto simp: transform_def split: if_splits)
    from Cons.IH [OF w] show ?thesis using False
      by (cases "filter (\<lambda>f. \<not> isNull f) files") simp_all
  qed
qed

lemma flush_pushes_file:
  assumes "snd (flush r q) = Pushed fs" and "file_p q = Some f"
  shows "fs = [f]"
  using assms
  by (auto simp: flush_def done_cb_def split: if_splits prod.splits sum.splits)

text \<open>
  Claim C10. When the files written to the stream were all accepted and one of them at
  least is not null, the parameters at flush time are the initial ones with the last
  non-null file stored: every earlier file is gone, the deployment is the one of that
  file alone, and a run that succeeds pushes exactly that file downstream.
\<close>

theorem last_file_deployed:
  assumes "write_all p files = Inr p'" and "filter (\<lambda>f. \<not> isNull f) files \<noteq> []"
  shows "p' = p\<lparr>file_p := Some (last (filter (\<lambda>f. \<not> isNull f) files))\<rparr> \<and>
    flush r p' = flush r (p\<lparr>file_p := Some (last (filter (\<lambda>f. \<not> isNull f) files))\<rparr>) \<and>
    (\<forall>fs. snd (flush r p') = Pushed fs \<longrightarrow> fs = [last (filter (\<lambda>f. \<not> isNull f) files)])"
proof -
  from write_all_stores [OF assms(1)] assms(2)
  have p': "p' = p\<lparr>file_p := Some (last (filter (\<lambda>f. \<not> isNull f) files))\<rparr>"
    by (cases "filter (\<lambda>f. \<not> isNull f) files") simp_all
  have "\<forall>fs. snd (flush r p') = Pushed fs \<longrightarrow> fs = [last (filter (\<lambda>f. \<not> isNull f) files)]"
    using flush_pushes_file [of r p' _ "last (filter (\<lambda>f. \<not> isNull f) files)"]
    by (simp add: p')
  with p' show ?thesis by simp
qed

theorem last_file_deployed_witness:
  "write_all (example_params\<lparr>file_p := None\<rparr>)
     [\<lparr>path = ''old.zip'', contents = JBuffer [1]\<rparr>, \<lparr>path = ''dir'', contents = JNull\<rparr>,
      example_file] = Inr example_params \<and>
   filter (\<lambda>f. \<not> isNull f)
     [\<lparr>path = ''old.zip'', contents = JBuffer [1]\<rparr>, \<lparr>path = ''dir'', contents = JNull\<rparr>,
      example_file] = [\<lparr>path = ''old.zip'', contents = JBuffer [1]\<rparr>, example_file] \<and>
   snd (flush example_remote example_params) = Pushed [example_file]"
  using last_file_deployed [of "example_params\<lparr>file_p := None\<rparr>"
      "[\<lparr>path = ''old.zip'', contents = JBuffer [1]\<rparr>, \<lparr>path = ''dir'', contents = JNull\<rparr>,
        example_file]" example_params example_remote]
  by (simp add: example_update_run)
    (simp add: transform_def isNull_def isStream_def example_params_def example_file_def)


section \<open>The parameter objects and the shape of the trace\<close>

lemma map_of_set_prop: "map_of (set_prop kvs k v) = (map_of kvs)(k \<mapsto> v)"
  by (induction kvs) auto

lemma map_of_optional_settings:
  "map_of (optional_settings p base) k =
    (if k = ''VpcConfig'' \<and> truthy (subnets p) \<and> truthy (securityGroups p)
       then Some (VpcConfig p)
     else if k = ''Timeout'' \<and> truthy (timeout p) then Some (timeout p)
     else if k = ''Description'' \<and> truthy (description p) then Some (description p)
     else if k = ''MemorySize'' \<and> truthy (memory p) then Some (memory p)
     else map_of base k)"
  by (simp add: optional_settings_def Let_def map_of_set_prop)

lemma upsertAlias_eq:
  "upsertAlias r v p tr =
    (case lambda_getAlias r tr (getAlias_lamparams p) of
       Inl err \<Rightarrow>
         if code err \<noteq> JStr ''ResourceNotFoundException''
         then (tr @ [GetAlias (getAlias_lamparams p)], Inl err)
         else (tr @ [GetAlias (getAlias_lamparams p), CreateAlias (alias_lamparams v p)],
               lambda_createAlias r (tr @ [GetAlias (getAlias_lamparams p)])
                 (alias_lamparams v p))
     | Inr data \<Rightarrow>
         (tr @ [GetAlias (getAlias_lamparams p), UpdateAlias (alias_lamparams v p)],
          lambda_updateAlias r (tr @ [GetAlias (getAlias_lamparams p)]) (alias_lamparams v p)))"
  by (simp add: upsertAlias_def getAlias_def createAlias_def updateAlias_def then_p_def Let_def
      split: sum.splits)

lemma aliased_rejected:
  assumes "upserted r p = (tr, Inl e)"
  shows "aliased r p = (tr, Inl e)"
  using assms by (simp add: aliased_def then_p_Inl)

lemma aliased_trace:
  assumes "upserted r p = (tr, Inr u)"
  shows "fst (aliased r p) =
    tr @ (if truthy (alias_name p) then
            GetAlias (getAlias_lamparams p) #
            (case lambda_getAlias r tr (getAlias_lamparams p) of
               Inl err \<Rightarrow>
                 if code err = JStr ''ResourceNotFoundException''
                 then [CreateAlias (alias_lamparams (get_prop (JObj u) ''Version'') p)]
                 else []
             | Inr data \<Rightarrow> [UpdateAlias (alias_lamparams (get_prop (JObj u) ''Version'') p)])
          else [])"
  using assms
  by (simp add: aliased_def then_p_Inr upsertAlias_eq split: sum.splits del: get_prop.simps)

lemma aliased_fatal:
  assumes "upserted r p = (tr, Inr u)" and "truthy (alias_name p)"
    and "lambda_getAlias r tr (getAlias_lamparams p) = Inl err"
    and "code err \<noteq> JStr ''ResourceNotFoundException''"
  shows "snd (aliased r p) = Inl err"
  using assms by (simp add: aliased_def then_p_Inr upsertAlias_eq del: get_prop.simps)

lemma aliased_extends:
  "\<exists>rest. fst (aliased r p) = fst (upserted r p) @ rest \<and> (\<forall>c\<in>set rest. 4 \<le> stage_rank c)"
proof (cases "upserted r p")
  case (Pair tr res)
  show ?thesis
  proof (cases res)
    case (Inl e)
    with Pair show ?thesis by (simp add: aliased_rejected)
  next
    case (Inr u)
    with Pair have "upserted r p = (tr, Inr u)" by simp
    from aliased_trace [OF this] show ?thesis
      by (auto simp: Pair split: sum.splits)
  qed
qed

lemma upserted_update:
  assumes "located r p = (tr, Inr True)" and "updateFunctionCode_lamparams p = Inr cd"
  shows "upserted r p =
    (case lambda_updateFunctionConfiguration r tr (updateFunctionConfiguration_lamparams p) of
       Inl err \<Rightarrow>
         (tr @ [UpdateFunctionConfiguration (updateFunctionConfiguration_lamparams p)], Inl err)
     | Inr data \<Rightarrow>
         (tr @ [UpdateFunctionConfiguration (updateFunctionConfiguration_lamparams p),
                UpdateFunctionCode cd],
          lambda_updateFunctionCode r
            (tr @ [UpdateFunctionConfiguration (updateFunctionConfiguration_lamparams p)]) cd))"
  using assms
  by (simp add: upserted_def then_p_Inr updateFunctionConfiguration_def updateFunctionCode_def
      then_p_def Let_def split: sum.splits)

lemma upserted_create:
  assumes "located r p = (tr, Inr False)" and "createFunction_lamparams p = Inr q"
  shows "upserted r p = (tr @ [CreateFunction q], lambda_createFunction r tr q)"
  using assms by (simp add: upserted_def then_p_Inr createFunction_def)

lemma located_ranks:
  assumes "file_p p = Some f" and "located r p = (tr, res)"
  shows "\<forall>c\<in>set tr. stage_rank c < 2"
  using inv_located [OF assms(1), of r] assms(2) by (simp add: chain_inv_def)

lemma upserted_ranks:
  assumes "file_p p = Some f" and "upserted r p = (tr, res)"
  shows "\<forall>c\<in>set tr. stage_rank c < 4"
  using inv_upserted [OF assms(1), of r] assms(2) by (simp add: chain_inv_def)

lemma flush_trace:
  assumes "file_p p = Some f" and "slice_last4 (path f) = ''.zip''"
  shows "fst (flush r p) = fst (aliased r p)"
  using assms by (simp add: flush_valid)

text \<open>
  Claim C2. On the update path, that is when the lookup resolved to true after the calls
  \<open>tr\<close>, the next call is the configuration update, and the code update is made only
  when the configuration update has answered without error, directly after it. No other
  update or creation call is in the trace: the calls before are staging and lookup, the
  calls after are alias calls. The code update carries \<^verbatim>\<open>Publish\<close>, with the value of
  \<^verbatim>\<open>params.publish\<close>; the configuration update has no such property.
\<close>

theorem update_path_order:
  assumes "file_p p = Some f" and "slice_last4 (path f) = ''.zip''"
    and "located r p = (tr, Inr True)"
  shows "\<exists>cd rest.
    updateFunctionCode_lamparams p = Inr cd \<and>
    fst (flush r p) =
      tr @ UpdateFunctionConfiguration (updateFunctionConfiguration_lamparams p) #
        (case lambda_updateFunctionConfiguration r tr
                (updateFunctionConfiguration_lamparams p) of
           Inl err \<Rightarrow> []
         | Inr data \<Rightarrow> UpdateFunctionCode cd # rest) \<and>
    (\<forall>c\<in>set tr. stage_rank c < 2) \<and> (\<forall>c\<in>set rest. 4 \<le> stage_rank c) \<and>
    map_of cd ''Publish'' = Some (publish p) \<and>
    map_of (updateFunctionConfiguration_lamparams p) ''Publish'' = None"
proof -
  from updateFunctionCode_lamparams_Inr [OF assms(1)] obtain cd
    where cd: "updateFunctionCode_lamparams p = Inr cd" .
  note up = upserted_update [OF assms(3) cd]
  from aliased_extends [of r p] obtain rest
    where rest: "fst (aliased r p) = fst (upserted r p) @ rest" "\<forall>c\<in>set rest. 4 \<le> stage_rank c"
    by blast
  have tr: "fst (flush r p) =
      tr @ UpdateFunctionConfiguration (updateFunctionConfiguration_lamparams p) #
        (case lambda_updateFunctionConfiguration r tr
                (updateFunctionConfiguration_lamparams p) of
           Inl err \<Rightarrow> []
         | Inr data \<Rightarrow> UpdateFunctionCode cd # rest)"
  proof (cases "lambda_updateFunctionConfiguration r tr (updateFunctionConfiguration_lamparams p)")
    case (Inl err)
    with up have "upserted r p =
        (tr @ [UpdateFunctionConfiguration (updateFunctionConfiguration_lamparams p)], Inl err)"
      by simp
    from aliased_rejected [OF this] show ?thesis
      by (simp add: flush_trace [OF assms(1,2)] Inl)
  next
    case (Inr data)
    with up rest(1) show ?thesis by (simp add: flush_trace [OF assms(1,2)])
  qed
  have pub: "map_of cd ''Publish'' = Some (publish p)"
    using cd
    by (auto simp: updateFunctionCode_lamparams_def Let_def map_of_set_prop
        split: if_splits sum.splits)
  have nopub: "map_of (updateFunctionConfiguration_lamparams p) ''Publish'' = None"
    by (simp add: updateFunctionConfiguration_lamparams_def map_of_optional_settings)
  from cd tr located_ranks [OF assms(1,3)] rest(2) pub nopub show ?thesis by blast
qed

theorem update_path_order_witness:
  "file_p example_params = Some example_file \<and>
   slice_last4 (path example_file) = ''.zip'' \<and>
   located example_remote example_params = ([ListFunctions []], Inr True) \<and>
   lambda_updateFunctionConfiguration example_remote [ListFunctions []]
     (updateFunctionConfiguration_lamparams example_params) = Inr [(''Version'', JStr ''3'')] \<and>
   take 3 (fst (flush example_remote example_params)) =
     [ListFunctions [],
      UpdateFunctionConfiguration
        [(''FunctionName'', JStr ''f''), (''Role'', JStr ''r''),
         (''Handler'', JStr ''index.handler''), (''Runtime'', JStr ''nodejs4.3'')],
      UpdateFunctionCode
        [(''FunctionName'', JStr ''f''), (''Publish'', JBool True),
         (''ZipFile'', JBuffer [80, 75])]]"
proof -
  have 1: "file_p example_params = Some example_file"
    by (simp add: example_params_def)
  have 2: "slice_last4 (path example_file) = ''.zip''"
    by (simp add: example_file_def slice_last4_def)
  have 3: "located example_remote example_params = ([ListFunctions []], Inr True)"
    by (simp add: located_def staged_def then_p_def hasLambdaFunction_def example_defs)
  from update_path_order [OF 1 2 3] 1 2 3 show ?thesis
    by (simp add: example_update_run) (simp add: example_defs)
qed


lemma flush_issued:
  assumes "c \<in> set (fst (flush r p))"
  shows "issued p c \<and> (\<exists>f. file_p p = Some f)"
proof (cases rule: flush_cases [of r p])
  case (invalid m)
  with assms show ?thesis by simp
next
  case (valid f res)
  with assms show ?thesis by (simp add: chain_inv_def)
qed

lemma createFunction_lamparams_fields:
  assumes "createFunction_lamparams p = Inr q"
  shows "\<exists>code'. createFunction_code p = Inr code' \<and>
    map_of q ''Code'' = Some (JObj code') \<and>
    map_of q ''FunctionName'' = Some (name p) \<and>
    map_of q ''Handler'' = Some (js_or (handler p) DEFAULT_handler) \<and>
    map_of q ''Runtime'' = Some (js_or (runtime p) DEFAULT_runtime) \<and>
    map_of q ''Role'' = Some (role p) \<and>
    map_of q ''Publish'' = Some (publish p) \<and>
    map_of q ''MemorySize'' = (if truthy (memory p) then Some (memory p) else None) \<and>
    map_of q ''Description'' = (if truthy (description p) then Some (description p) else None) \<and>
    map_of q ''Timeout'' = (if truthy (timeout p) then Some (timeout p) else None) \<and>
    map_of q ''VpcConfig'' =
      (if truthy (subnets p) \<and> truthy (securityGroups p) then Some (VpcConfig p) else None)"
proof (cases "createFunction_code p")
  case (Inl e)
  with assms show ?thesis by (simp add: createFunction_lamparams_def)
next
  case (Inr code')
  with assms have q: "q = optional_settings p
      [(''Code'', JObj code'), (''FunctionName'', name p),
       (''Handler'', js_or (handler p) DEFAULT_handler),
       (''Runtime'', js_or (runtime p) DEFAULT_runtime),
       (''Role'', role p), (''Publish'', publish p)]"
    by (simp add: createFunction_lamparams_def)
  show ?thesis by (simp add: Inr q map_of_optional_settings)
qed

text \<open>
  Claim C3. On the create path, that is when the lookup resolved to false after the calls
  \<open>tr\<close>, the next call is the creation, and it is the only update or creation call of the
  run: the calls before are staging and lookup, the calls after are alias calls. Its
  parameter object carries the code, the name, the handler and the runtime (or their
  defaults), the role, \<^verbatim>\<open>Publish\<close> and each optional setting that is present (a truthy
  value; the VPC settings when both lists are).
\<close>

theorem create_path_single_call:
  assumes "file_p p = Some f" and "slice_last4 (path f) = ''.zip''"
    and "located r p = (tr, Inr False)"
  shows "\<exists>q code' rest.
    createFunction_lamparams p = Inr q \<and> createFunction_code p = Inr code' \<and>
    fst (flush r p) = tr @ CreateFunction q # rest \<and>
    (\<forall>c\<in>set tr. stage_rank c < 2) \<and> (\<forall>c\<in>set rest. 4 \<le> stage_rank c) \<and>
    map_of q ''Code'' = Some (JObj code') \<and>
    map_of q ''FunctionName'' = Some (name p) \<and>
    map_of q ''Handler'' = Some (js_or (handler p) DEFAULT_handler) \<and>
    map_of q ''Runtime'' = Some (js_or (runtime p) DEFAULT_runtime) \<and>
    map_of q ''Role'' = Some (role p) \<and>
    map_of q ''Publish'' = Some (publish p) \<and>
    map_of q ''MemorySize'' = (if truthy (memory p) then Some (memory p) else None) \<and>
    map_of q ''Description'' = (if truthy (description p) then Some (description p) else None) \<and>
    map_of q ''Timeout'' = (if truthy (timeout p) then Some (timeout p) else None) \<and>
    map_of q ''VpcConfig'' =
      (if truthy (subnets p) \<and> truthy (securityGroups p) then Some (VpcConfig p) else None)"
proof -
  from createFunction_lamparams_Inr [OF assms(1)] obtain q
    where q: "createFunction_lamparams p = Inr q" .
  from aliased_extends [of r p] obtain rest
    where rest: "fst (aliased r p) = fst (upserted r p) @ rest" "\<forall>c\<in>set rest. 4 \<le> stage_rank c"
    by blast
  have tr: "fst (flush r p) = tr @ CreateFunction q # rest"
    using rest(1) by (simp add: flush_trace [OF assms(1,2)] upserted_create [OF assms(3) q])
  from createFunction_lamparams_fields [OF q] q tr located_ranks [OF assms(1,3)] rest(2)
  show ?thesis by blast
qed

theorem create_path_single_call_witness:
  "file_p example_staged_params = Some example_file \<and>
   slice_last4 (path example_file) = ''.zip'' \<and>
   located example_empty_remote example_staged_params =
     ([PutObject [(''Bucket'', JStr ''b''), (''Key'', JStr ''k''), (''Body'', JBuffer [80, 75])],
       ListFunctions []], Inr False) \<and>
   fst (flush example_empty_remote example_staged_params) =
     [PutObject [(''Bucket'', JStr ''b''), (''Key'', JStr ''k''), (''Body'', JBuffer [80, 75])],
      ListFunctions [],
      CreateFunction
        [(''Code'', JObj [(''S3Bucket'', JStr ''b''), (''S3Key'', JStr ''k'')]),
         (''FunctionName'', JStr ''f''), (''Handler'', JStr ''index.handler''),
         (''Runtime'', JStr ''nodejs4.3''), (''Role'', JStr ''r''),
         (''Publish'', JBool False), (''MemorySize'', JNum 128),
         (''VpcConfig'', JObj [(''SubnetIds'', JArr [JStr ''subnet-1'']),
            (''SecurityGroupIds'', JArr [JStr ''sg-1''])])]]"
proof -
  have 3: "located example_empty_remote example_staged_params =
     ([PutObject [(''Bucket'', JStr ''b''), (''Key'', JStr ''k''), (''Body'', JBuffer [80, 75])],
       ListFunctions []], Inr False)"
    by (simp add: run_defs example_defs)
  from create_path_single_call [OF example_valid(2,3) 3] 3 show ?thesis
    by (simp add: example_valid example_create_run)
qed

text \<open>
  The alias stage. When the function was created or updated with data \<open>u\<close> after the
  calls \<open>tr\<close>, the rest of the trace is, with an alias name, the lookup of that alias on
  the function, followed by exactly one creation of the alias when the lookup answered
  \<^verbatim>\<open>ResourceNotFoundException\<close>, by exactly one update of the alias when it answered with
  data, and by nothing when it answered any other error, which \<^verbatim>\<open>done\<close> then receives.
  The alias is written with the version of \<open>u\<close>. Without an alias name the trace ends at
  \<open>tr\<close>, which holds no alias call.
\<close>

lemma alias_stage_trace:
  assumes "file_p p = Some f" and "slice_last4 (path f) = ''.zip''"
    and "upserted r p = (tr, Inr u)"
  shows "fst (flush r p) =
      tr @ (if truthy (alias_name p) then
              GetAlias (getAlias_lamparams p) #
              (case lambda_getAlias r tr (getAlias_lamparams p) of
                 Inl err \<Rightarrow>
                   if code err = JStr ''ResourceNotFoundException''
                   then [CreateAlias (alias_lamparams (get_prop (JObj u) ''Version'') p)]
                   else []
               | Inr data \<Rightarrow> [UpdateAlias (alias_lamparams (get_prop (JObj u) ''Version'') p)])
            else []) \<and>
    (\<forall>c\<in>set tr. stage_rank c < 4) \<and>
    (\<forall>err. truthy (alias_name p) \<and> lambda_getAlias r tr (getAlias_lamparams p) = Inl err \<and>
        code err \<noteq> JStr ''ResourceNotFoundException'' \<longrightarrow>
        snd (flush r p) = done_cb p (Some err)) \<and>
    getAlias_lamparams p = [(''FunctionName'', name p), (''Name'', alias_name p)] \<and>
    alias_lamparams (get_prop (JObj u) ''Version'') p =
      [(''FunctionName'', name p), (''FunctionVersion'', get_prop (JObj u) ''Version''),
       (''Name'', alias_name p)]"
proof -
  have 1: "fst (flush r p) =
      tr @ (if truthy (alias_name p) then
              GetAlias (getAlias_lamparams p) #
              (case lambda_getAlias r tr (getAlias_lamparams p) of
                 Inl err \<Rightarrow>
                   if code err = JStr ''ResourceNotFoundException''
                   then [CreateAlias (alias_lamparams (get_prop (JObj u) ''Version'') p)]
                   else []
               | Inr data \<Rightarrow> [UpdateAlias (alias_lamparams (get_prop (JObj u) ''Version'') p)])
            else [])"
    using aliased_trace [OF assms(3)] by (simp only: flush_trace [OF assms(1,2)])
  have 3: "\<forall>err. truthy (alias_name p) \<and> lambda_getAlias r tr (getAlias_lamparams p) = Inl err \<and>
        code err \<noteq> JStr ''ResourceNotFoundException'' \<longrightarrow>
        snd (flush r p) = done_cb p (Some err)"
  proof (intro allI impI)
    fix err
    assume a: "truthy (alias_name p) \<and> lambda_getAlias r tr (getAlias_lamparams p) = Inl err \<and>
        code err \<noteq> JStr ''ResourceNotFoundException''"
    then have "snd (aliased r p) = Inl err"
      using aliased_fatal [OF assms(3)] by blast
    then show "snd (flush r p) = done_cb p (Some err)"
      by (simp add: flush_valid [OF assms(1,2)])
  qed
  from 1 upserted_ranks [OF assms(1,3)] 3 show ?thesis
    by (simp add: getAlias_lamparams_def alias_lamparams_def del: get_prop.simps)
qed

text \<open>
  Claim C5. The claim holds of the calls made, by \<open>alias_stage_trace\<close>: the lookup, then
  one creation on not-found, one update on data, and no alias write on any other error.
  It fails where it says that such an error is propagated. \<^verbatim>\<open>done\<close> builds the plugin
  error from the message of the error, and the constructor throws when there is none: at
  a lookup answered by \<^verbatim>\<open>AccessDeniedException\<close> with an empty message, the run stops
  after the lookup, but the exception leaves the \<^verbatim>\<open>.catch\<close> handler and the callback
  of \<^verbatim>\<open>flush\<close> is never called. With the message \<^verbatim>\<open>denied\<close> the same failure is passed to
  the callback.
\<close>

theorem alias_lookup_error_unreported:
  "lambda_getAlias example_silent_remote
     (fst (upserted example_silent_remote example_params))
     (getAlias_lamparams example_params) =
     Inl \<lparr>code = JStr ''AccessDeniedException'', message = Some []\<rparr> \<and>
   flush example_silent_remote example_params =
    ([ListFunctions [],
      UpdateFunctionConfiguration
        [(''FunctionName'', JStr ''f''), (''Role'', JStr ''r''),
         (''Handler'', JStr ''index.handler''), (''Runtime'', JStr ''nodejs4.3'')],
      UpdateFunctionCode
        [(''FunctionName'', JStr ''f''), (''Publish'', JBool True),
         (''ZipFile'', JBuffer [80, 75])],
      GetAlias [(''FunctionName'', JStr ''f''), (''Name'', JStr ''live'')]],
     Unhandled ''Missing error message'') \<and>
   snd (flush example_denied_remote example_params) = Failed ''denied''"
  by (simp add: example_denied_run) (simp add: run_defs example_defs Let_def)


section \<open>The code sent and the settings sent\<close>

lemma updateFunctionCode_lamparams_source:
  assumes "updateFunctionCode_lamparams p = Inr q"
  shows "if truthy (s3 p)
    then map_of q ''S3Bucket'' = Some (get_prop (s3 p) ''bucket'') \<and>
         map_of q ''S3Key'' = Some (get_prop (s3 p) ''key'') \<and> map_of q ''ZipFile'' = None
    else map_of q ''S3Bucket'' = None \<and> map_of q ''S3Key'' = None \<and>
         (\<exists>f. file_p p = Some f \<and> map_of q ''ZipFile'' = Some (contents f))"
  using assms
  by (auto simp: updateFunctionCode_lamparams_def Let_def map_of_set_prop file_contents_def
      split: if_splits option.splits simp del: get_prop.simps)

lemma createFunction_code_source:
  assumes "createFunction_code p = Inr q"
  shows "if truthy (s3 p)
    then map_of q ''S3Bucket'' = Some (get_prop (s3 p) ''bucket'') \<and>
         map_of q ''S3Key'' = Some (get_prop (s3 p) ''key'') \<and> map_of q ''ZipFile'' = None
    else map_of q ''S3Bucket'' = None \<and> map_of q ''S3Key'' = None \<and>
         (\<exists>f. file_p p = Some f \<and> map_of q ''ZipFile'' = Some (contents f))"
  using assms
  by (auto simp: createFunction_code_def file_contents_def
      split: if_splits option.splits simp del: get_prop.simps)

lemma flush_code_source:
  "\<forall>c\<in>set (fst (flush r p)).
     (\<forall>q. c = UpdateFunctionCode q \<longrightarrow>
        (if truthy (s3 p)
         then map_of q ''S3Bucket'' = Some (get_prop (s3 p) ''bucket'') \<and>
              map_of q ''S3Key'' = Some (get_prop (s3 p) ''key'') \<and> map_of q ''ZipFile'' = None
         else map_of q ''S3Bucket'' = None \<and> map_of q ''S3Key'' = None \<and>
              (\<exists>f. file_p p = Some f \<and> map_of q ''ZipFile'' = Some (contents f)))) \<and>
     (\<forall>q. c = CreateFunction q \<longrightarrow>
        (\<exists>code'. map_of q ''Code'' = Some (JObj code') \<and>
           (if truthy (s3 p)
            then map_of code' ''S3Bucket'' = Some (get_prop (s3 p) ''bucket'') \<and>
                 map_of code' ''S3Key'' = Some (get_prop (s3 p) ''key'') \<and>
                 map_of code' ''ZipFile'' = None
            else map_of code' ''S3Bucket'' = None \<and> map_of code' ''S3Key'' = None \<and>
                 (\<exists>f. file_p p = Some f \<and> map_of code' ''ZipFile'' = Some (contents f)))))"
proof (intro ballI conjI allI impI)
  fix c q assume "c \<in> set (fst (flush r p))" and "c = UpdateFunctionCode q"
  with flush_issued [of c r p] have "updateFunctionCode_lamparams p = Inr q" by simp
  then show "if truthy (s3 p)
    then map_of q ''S3Bucket'' = Some (get_prop (s3 p) ''bucket'') \<and>
         map_of q ''S3Key'' = Some (get_prop (s3 p) ''key'') \<and> map_of q ''ZipFile'' = None
    else map_of q ''S3Bucket'' = None \<and> map_of q ''S3Key'' = None \<and>
         (\<exists>f. file_p p = Some f \<and> map_of q ''ZipFile'' = Some (contents f))"
    by (rule updateFunctionCode_lamparams_source)
next
  fix c q assume "c \<in> set (fst (flush r p))" and "c = CreateFunction q"
  with flush_issued [of c r p] have "createFunction_lamparams p = Inr q" by simp
  from createFunction_lamparams_fields [OF this] obtain code'
    where c: "createFunction_code p = Inr code'" "map_of q ''Code'' = Some (JObj code')"
    by blast
  from createFunction_code_source [OF c(1)] c(2)
  show "\<exists>code'. map_of q ''Code'' = Some (JObj code') \<and>
           (if truthy (s3 p)
            then map_of code' ''S3Bucket'' = Some (get_prop (s3 p) ''bucket'') \<and>
                 map_of code' ''S3Key'' = Some (get_prop (s3 p) ''key'') \<and>
                 map_of code' ''ZipFile'' = None
            else map_of code' ''S3Bucket'' = None \<and> map_of code' ''S3Key'' = None \<and>
                 (\<exists>f. file_p p = Some f \<and> map_of code' ''ZipFile'' = Some (contents f)))"
    by blast
qed

lemma write_all_file:
  assumes "write_all p0 files = Inr p"
  shows "file_p p = file_p p0 \<or> (\<exists>f. file_p p = Some f \<and> \<not> isNull f \<and> \<not> isStream f)"
  using assms
proof (induction files arbitrary: p0)
  case Nil
  then show ?case by simp
next
  case (Cons f files)
  show ?case
  proof (cases "isNull f")
    case True
    with Cons show ?thesis by (simp add: transform_def)
  next
    case False
    with Cons.prems have ns: "\<not> isStream f" and w: "write_all (p0\<lparr>file_p := Some f\<rparr>) files = Inr p"
      by (auto simp: transform_def split: if_splits)
    from Cons.IH [OF w] False ns show ?thesis by auto
  qed
qed

lemma module_exports_staging:
  assumes "module_exports (Some p) opts = Inr p'" and "truthy (s3 p)"
  shows "truthy (get_prop (s3 p) ''bucket'') \<and> truthy (get_prop (s3 p) ''key'')"
  using assms
  by (auto simp: module_exports_def split: option.splits if_splits simp del: get_prop.simps)

text \<open>
  Claim C4. In every code update and every creation of a run, the code is given in
  exactly one way: with a staging target, as \<^verbatim>\<open>S3Bucket\<close> and \<^verbatim>\<open>S3Key\<close> of the target
  and no \<^verbatim>\<open>ZipFile\<close>; without one, as the \<^verbatim>\<open>ZipFile\<close> of the contents of the stored
  file and neither \<^verbatim>\<open>S3Bucket\<close> nor \<^verbatim>\<open>S3Key\<close>. What is sent is really there: the
  bucket and the key of parameters that passed \<^verbatim>\<open>module.exports\<close> are truthy, and the
  contents of a file stored by \<^verbatim>\<open>transform\<close> are neither null nor a stream.
\<close>

theorem code_source_exclusive:
  "(\<forall>c\<in>set (fst (flush r p)).
     (\<forall>q. c = UpdateFunctionCode q \<longrightarrow>
        (if truthy (s3 p)
         then map_of q ''S3Bucket'' = Some (get_prop (s3 p) ''bucket'') \<and>
              map_of q ''S3Key'' = Some (get_prop (s3 p) ''key'') \<and> map_of q ''ZipFile'' = None
         else map_of q ''S3Bucket'' = None \<and> map_of q ''S3Key'' = None \<and>
              (\<exists>f. file_p p = Some f \<and> map_of q ''ZipFile'' = Some (contents f)))) \<and>
     (\<forall>q. c = CreateFunction q \<longrightarrow>
        (\<exists>code'. map_of q ''Code'' = Some (JObj code') \<and>
           (if truthy (s3 p)
            then map_of code' ''S3Bucket'' = Some (get_prop (s3 p) ''bucket'') \<and>
                 map_of code' ''S3Key'' = Some (get_prop (s3 p) ''key'') \<and>
                 map_of code' ''ZipFile'' = None
            else map_of code' ''S3Bucket'' = None \<and> map_of code' ''S3Key'' = None \<and>
                 (\<exists>f. file_p p = Some f \<and> map_of code' ''ZipFile'' = Some (contents f)))))) \<and>
   ((\<exists>p'. module_exports (Some (p\<lparr>file_p := given\<rparr>)) opts = Inr p') \<and> truthy (s3 p) \<longrightarrow>
      truthy (get_prop (s3 p) ''bucket'') \<and> truthy (get_prop (s3 p) ''key'')) \<and>
   (write_all p0 files = Inr p \<and> file_p p0 = None \<longrightarrow>
      (\<forall>f. file_p p = Some f \<longrightarrow> contents f \<noteq> JNull \<and> contents f \<noteq> JStream))"
proof -
  have 2: "(\<exists>p'. module_exports (Some (p\<lparr>file_p := given\<rparr>)) opts = Inr p') \<and> truthy (s3 p) \<longrightarrow>
      truthy (get_prop (s3 p) ''bucket'') \<and> truthy (get_prop (s3 p) ''key'')"
    using module_exports_staging [of "p\<lparr>file_p := given\<rparr>" opts] by auto
  have 3: "write_all p0 files = Inr p \<and> file_p p0 = None \<longrightarrow>
      (\<forall>f. file_p p = Some f \<longrightarrow> contents f \<noteq> JNull \<and> contents f \<noteq> JStream)"
    using write_all_file [of p0 files p] by (auto simp: isNull_def isStream_def)
  show ?thesis using 2 3 flush_code_source [of r p] by blast
qed

theorem code_source_exclusive_witness:
  "truthy (s3 example_staged_params) \<and>
   CreateFunction
     [(''Code'', JObj [(''S3Bucket'', JStr ''b''), (''S3Key'', JStr ''k'')]),
      (''FunctionName'', JStr ''f''), (''Handler'', JStr ''index.handler''),
      (''Runtime'', JStr ''nodejs4.3''), (''Role'', JStr ''r''),
      (''Publish'', JBool False), (''MemorySize'', JNum 128),
      (''VpcConfig'', JObj [(''SubnetIds'', JArr [JStr ''subnet-1'']),
         (''SecurityGroupIds'', JArr [JStr ''sg-1''])])]
     \<in> set (fst (flush example_empty_remote example_staged_params)) \<and>
   \<not> truthy (s3 example_params) \<and>
   UpdateFunctionCode
     [(''FunctionName'', JStr ''f''), (''Publish'', JBool True), (''ZipFile'', JBuffer [80, 75])]
     \<in> set (fst (flush example_remote example_params)) \<and>
   module_exports (Some example_staged_params) (Some example_options) =
     Inr example_staged_params \<and>
   write_all (example_params\<lparr>file_p := None\<rparr>) [example_file] = Inr example_params \<and>
   file_p (example_params\<lparr>file_p := None\<rparr>) = None \<and>
   file_p example_params = Some example_file"
proof -
  have 1: "truthy (s3 example_staged_params)" "\<not> truthy (s3 example_params)"
    by (simp_all add: example_staged_params_def example_params_def)
  have 2: "module_exports (Some example_staged_params) (Some example_options) =
     Inr example_staged_params"
    by (simp add: module_exports_def example_staged_params_def example_options_def)
  have 3: "write_all (example_params\<lparr>file_p := None\<rparr>) [example_file] = Inr example_params"
    by (simp add: transform_def isNull_def isStream_def example_params_def example_file_def)
  have 4: "file_p (example_params\<lparr>file_p := None\<rparr>) = None"
    "file_p example_params = Some example_file"
    by (simp_all add: example_params_def)
  from code_source_exclusive [of example_empty_remote example_staged_params
      "Some example_file" "Some example_options" "example_staged_params\<lparr>file_p := None\<rparr>"
      "[example_file]"]
    code_source_exclusive [of example_remote example_params
      "Some example_file" "Some example_options" "example_params\<lparr>file_p := None\<rparr>"
      "[example_file]"]
  show ?thesis
    by (intro conjI) (simp_all only: 1 2 3 4 example_create_run example_update_run
        fst_conv list.set insert_iff simp_thms)
qed

text \<open>
  Claim C8. Every configuration update of a run sends the name, the role, the handler
  and the runtime, the last two replaced by \<^verbatim>\<open>index.handler\<close> and \<^verbatim>\<open>nodejs4.3\<close> when not
  given. Memory size, description and timeout are sent exactly when the parameter is
  truthy, so an absent one is left out of the call, and VPC settings are sent only when
  both lists are given.
\<close>

theorem configuration_update_fields:
  "\<forall>q. UpdateFunctionConfiguration q \<in> set (fst (flush r p)) \<longrightarrow>
     map_of q ''FunctionName'' = Some (name p) \<and>
     map_of q ''Role'' = Some (role p) \<and>
     map_of q ''Handler'' = Some (if truthy (handler p) then handler p else JStr ''index.handler'') \<and>
     map_of q ''Runtime'' = Some (if truthy (runtime p) then runtime p else JStr ''nodejs4.3'') \<and>
     map_of q ''MemorySize'' = (if truthy (memory p) then Some (memory p) else None) \<and>
     map_of q ''Description'' = (if truthy (description p) then Some (description p) else None) \<and>
     map_of q ''Timeout'' = (if truthy (timeout p) then Some (timeout p) else None) \<and>
     (map_of q ''VpcConfig'' \<noteq> None \<longrightarrow> truthy (subnets p) \<and> truthy (securityGroups p))"
proof (intro allI impI)
  fix q assume "UpdateFunctionConfiguration q \<in> set (fst (flush r p))"
  with flush_issued [of "UpdateFunctionConfiguration q" r p]
  have q: "q = updateFunctionConfiguration_lamparams p" by simp
  show "map_of q ''FunctionName'' = Some (name p) \<and>
     map_of q ''Role'' = Some (role p) \<and>
     map_of q ''Handler'' = Some (if truthy (handler p) then handler p else JStr ''index.handler'') \<and>
     map_of q ''Runtime'' = Some (if truthy (runtime p) then runtime p else JStr ''nodejs4.3'') \<and>
     map_of q ''MemorySize'' = (if truthy (memory p) then Some (memory p) else None) \<and>
     map_of q ''Description'' = (if truthy (description p) then Some (description p) else None) \<and>
     map_of q ''Timeout'' = (if truthy (timeout p) then Some (timeout p) else None) \<and>
     (map_of q ''VpcConfig'' \<noteq> None \<longrightarrow> truthy (subnets p) \<and> truthy (securityGroups p))"
    by (simp add: q updateFunctionConfiguration_lamparams_def map_of_optional_settings
        js_or_def DEFAULT_handler_def DEFAULT_runtime_def)
qed

theorem configuration_update_fields_witness:
  "UpdateFunctionConfiguration
     [(''FunctionName'', JStr ''f''), (''Role'', JStr ''r''),
      (''Handler'', JStr ''index.handler''), (''Runtime'', JStr ''nodejs4.3''),
      (''MemorySize'', JNum 128),
      (''VpcConfig'', JObj [(''SubnetIds'', JArr [JStr ''subnet-1'']),
         (''SecurityGroupIds'', JArr [JStr ''sg-1''])])]
     \<in> set (fst (flush example_remote example_staged_params)) \<and>
   truthy (memory example_staged_params) \<and>
   description example_staged_params = JUndefined \<and>
   handler example_staged_params = JUndefined"
  using configuration_update_fields [of example_remote example_staged_params]
  by (simp add: example_staged_update_run) (simp add: example_staged_params_def)

text \<open>
  Claim C9. In every configuration update and every creation of a run, the VPC settings
  are present exactly when both the subnets and the security groups are given (truthy),
  and then hold the two values with a string turned into a one-element list and a list
  kept. Validation does not look at either parameter: \<^verbatim>\<open>module.exports\<close> accepts or
  rejects the parameters whatever the two are, so giving one alone raises no error.
\<close>

theorem vpc_settings:
  "(\<forall>q. UpdateFunctionConfiguration q \<in> set (fst (flush r p)) \<or>
        CreateFunction q \<in> set (fst (flush r p)) \<longrightarrow>
      map_of q ''VpcConfig'' =
        (if truthy (subnets p) \<and> truthy (securityGroups p)
         then Some (JObj [(''SubnetIds'', string_to_list (subnets p)),
                          (''SecurityGroupIds'', string_to_list (securityGroups p))])
         else None)) \<and>
   string_to_list (JStr s) = JArr [JStr s] \<and>
   string_to_list (JArr xs) = JArr xs \<and>
   module_exports (Some (p\<lparr>subnets := a, securityGroups := b\<rparr>)) opts =
     (case module_exports (Some p) opts of
        Inl m \<Rightarrow> Inl m
      | Inr p' \<Rightarrow> Inr (p'\<lparr>subnets := a, securityGroups := b\<rparr>))"
proof -
  have 1: "\<forall>q. UpdateFunctionConfiguration q \<in> set (fst (flush r p)) \<or>
        CreateFunction q \<in> set (fst (flush r p)) \<longrightarrow>
      map_of q ''VpcConfig'' =
        (if truthy (subnets p) \<and> truthy (securityGroups p)
         then Some (JObj [(''SubnetIds'', string_to_list (subnets p)),
                          (''SecurityGroupIds'', string_to_list (securityGroups p))])
         else None)"
  proof (intro allI impI, elim disjE)
    fix q assume "UpdateFunctionConfiguration q \<in> set (fst (flush r p))"
    with flush_issued [of "UpdateFunctionConfiguration q" r p]
    have q: "q = updateFunctionConfiguration_lamparams p" by simp
    show "map_of q ''VpcConfig'' =
        (if truthy (subnets p) \<and> truthy (securityGroups p)
         then Some (JObj [(''SubnetIds'', string_to_list (subnets p)),
                          (''SecurityGroupIds'', string_to_list (securityGroups p))])
         else None)"
      by (simp add: q updateFunctionConfiguration_lamparams_def map_of_optional_settings
          VpcConfig_def)
  next
    fix q assume "CreateFunction q \<in> set (fst (flush r p))"
    with flush_issued [of "CreateFunction q" r p]
    have "createFunction_lamparams p = Inr q" by simp
    from createFunction_lamparams_fields [OF this]
    show "map_of q ''VpcConfig'' =
        (if truthy (subnets p) \<and> truthy (securityGroups p)
         then Some (JObj [(''SubnetIds'', string_to_list (subnets p)),
                          (''SecurityGroupIds'', string_to_list (securityGroups p))])
         else None)"
      by (auto simp: VpcConfig_def)
  qed
  have 2: "module_exports (Some (p\<lparr>subnets := a, securityGroups := b\<rparr>)) opts =
     (case module_exports (Some p) opts of
        Inl m \<Rightarrow> Inl m
      | Inr p' \<Rightarrow> Inr (p'\<lparr>subnets := a, securityGroups := b\<rparr>))"
    by (auto simp: module_exports_def split: option.splits simp del: get_prop.simps)
  from 1 2 show ?thesis by simp
qed

theorem vpc_settings_witness:
  "truthy (subnets example_staged_params) \<and> truthy (securityGroups example_staged_params) \<and>
   UpdateFunctionConfiguration
     [(''FunctionName'', JStr ''f''), (''Role'', JStr ''r''),
      (''Handler'', JStr ''index.handler''), (''Runtime'', JStr ''nodejs4.3''),
      (''MemorySize'', JNum 128),
      (''VpcConfig'', JObj [(''SubnetIds'', JArr [JStr ''subnet-1'']),
         (''SecurityGroupIds'', JArr [JStr ''sg-1''])])]
     \<in> set (fst (flush example_remote example_staged_params)) \<and>
   CreateFunction
     [(''Code'', JObj [(''S3Bucket'', JStr ''b''), (''S3Key'', JStr ''k'')]),
      (''FunctionName'', JStr ''f''), (''Handler'', JStr ''index.handler''),
      (''Runtime'', JStr ''nodejs4.3''), (''Role'', JStr ''r''),
      (''Publish'', JBool False), (''MemorySize'', JNum 128)]
     \<in> set (fst (flush example_empty_remote
         (example_staged_params\<lparr>securityGroups := JUndefined\<rparr>))) \<and>
   module_exports (Some (example_staged_params\<lparr>securityGroups := JUndefined\<rparr>))
     (Some example_options) = Inr (example_staged_params\<lparr>securityGroups := JUndefined\<rparr>)"
  using vpc_settings [of example_remote example_staged_params "''subnet-1''" "[JStr ''sg-1'']"
      "JStr ''subnet-1''" JUndefined "Some example_options"]
    vpc_settings [of example_empty_remote "example_staged_params\<lparr>securityGroups := JUndefined\<rparr>"
      "''subnet-1''" "[]" "JStr ''subnet-1''" JUndefined "Some example_options"]
  by (simp add: example_staged_update_run example_one_list_run)
    (simp add: example_staged_params_def example_options_def module_exports_def)

end
